theory Spec2Isabelle
  imports Main "HOL-Library.Word" "HOL-Library.AList" "HOL-Library.Multiset"
    "HOL-Library.Product_Lexorder"
begin

unbundle bit_operations_syntax

section \<open>Bytes, hex strings and errors\<close>

text \<open>
  A \<^verbatim>\<open>Uint8Array\<close> is a list of bytes, a JavaScript \<^verbatim>\<open>bigint\<close> is an \<^typ>\<open>int\<close>,
  a thrown \<^verbatim>\<open>Error\<close> is a value of \<open>error\<close> carrying its message, and a function
  that can throw returns \<open>error + 'a\<close>.
\<close>

type_synonym byte = "8 word"
type_synonym bytes = "byte list"

datatype error = Error string | TypeError | RangeError

text \<open>
  \<^verbatim>\<open>toHexString\<close> (\<^verbatim>\<open>@chainsafe/ssz\<close>) and \<^verbatim>\<open>bytesToHex\<close> (\<^verbatim>\<open>@ethereumjs/util\<close>) print
  \<^verbatim>\<open>0x\<close> followed by two lower-case hex digits per byte.
\<close>

definition hexDigit :: "nat \<Rightarrow> char" where
  "hexDigit n = ''0123456789abcdef'' ! (n mod 16)"

fun hexOfBytes :: "bytes \<Rightarrow> string" where
  "hexOfBytes [] = []"
| "hexOfBytes (b # bs) = hexDigit (unat b div 16) # hexDigit (unat b mod 16) # hexOfBytes bs"

definition toHexString :: "bytes \<Rightarrow> string" where
  "toHexString bs = ''0x'' @ hexOfBytes bs"

definition bytesToHex :: "bytes \<Rightarrow> string" where
  "bytesToHex bs = ''0x'' @ hexOfBytes bs"

text \<open>A number in decimal, as a template string prints it.\<close>

fun decimal :: "nat \<Rightarrow> string" where
  "decimal n = (if n < 10 then [hexDigit n] else decimal (n div 10) @ [hexDigit (n mod 10)])"

declare decimal.simps [simp del]

text \<open>
  Reading hex. Both libraries turn each pair of characters into a byte with
  \<^verbatim>\<open>parseInt(pair, 16)\<close> and store the result in a \<^verbatim>\<open>Uint8Array\<close>; neither checks
  that the characters are hex digits. \<^verbatim>\<open>parseInt\<close> skips leading white space, takes a
  sign, skips \<^verbatim>\<open>0x\<close> or \<^verbatim>\<open>0X\<close>, and reads hex digits of either case as far as they
  go; with no digit read the result is \<^verbatim>\<open>NaN\<close> (\<open>None\<close>). Storing \<^verbatim>\<open>NaN\<close> in the array
  gives 0, storing a number gives it modulo 256. A character is a code unit below 256.
\<close>

definition isWhiteSpace :: "char \<Rightarrow> bool" where
  "isWhiteSpace c \<longleftrightarrow>
     c \<in> set [CHR 0x09, CHR 0x0A, CHR 0x0B, CHR 0x0C, CHR 0x0D, CHR 0x20, CHR 0xA0]"

definition hexValue :: "char \<Rightarrow> nat option" where
  "hexValue c = map_of (zip ''0123456789abcdefABCDEF''
     [0, 1, 2, 3, 4, 5, 6, 7, 8, 9, 10, 11, 12, 13, 14, 15, 10, 11, 12, 13, 14, 15]) c"

fun hexPrefix :: "nat option \<Rightarrow> string \<Rightarrow> nat option" where
  "hexPrefix acc [] = acc"
| "hexPrefix acc (c # cs) =
     (case hexValue c of
        None \<Rightarrow> acc
      | Some d \<Rightarrow> hexPrefix (Some (16 * (case acc of None \<Rightarrow> 0 | Some n \<Rightarrow> n) + d)) cs)"

definition parseInt16 :: "string \<Rightarrow> int option" where
  "parseInt16 s =
     (let s1 = dropWhile isWhiteSpace s;
          negative = (take 1 s1 = ''-'');
          s2 = (if take 1 s1 = ''-'' \<or> take 1 s1 = ''+'' then drop 1 s1 else s1);
          s3 = (if take 2 s2 = ''0x'' \<or> take 2 s2 = ''0X'' then drop 2 s2 else s2)
      in case hexPrefix None s3 of
           None \<Rightarrow> None
         | Some n \<Rightarrow> Some (if negative then - int n else int n))"

definition toUint8 :: "int option \<Rightarrow> byte" where
  "toUint8 v = (case v of None \<Rightarrow> 0 | Some i \<Rightarrow> of_int i)"

text \<open>The loop over the pairs; the callers see to an even number of characters.\<close>

fun bytesOfPairs :: "string \<Rightarrow> bytes" where
  "bytesOfPairs (h # l # cs) = toUint8 (parseInt16 [h, l]) # bytesOfPairs cs"
| "bytesOfPairs cs = []"

text \<open>
  \<^verbatim>\<open>fromHexString\<close> drops an optional \<^verbatim>\<open>0x\<close> and throws on an odd number of
  characters; \<^verbatim>\<open>hexToBytes\<close> insists on the prefix and pads an odd number of characters
  with a leading zero.
\<close>

definition fromHexString :: "string \<Rightarrow> error + bytes" where
  "fromHexString hex =
     (let digits = (if take 2 hex = ''0x'' then drop 2 hex else hex)
      in if odd (length digits)
           then Inl (Error (''hex string length '' @ decimal (length digits)
                  @ '' must be multiple of 2''))
         else Inr (bytesOfPairs digits))"

definition padToEven :: "string \<Rightarrow> string" where
  "padToEven a = (if odd (length a) then CHR ''0'' # a else a)"

definition hexToBytes :: "string \<Rightarrow> error + bytes" where
  "hexToBytes hex =
     (if take 2 hex \<noteq> ''0x''
        then Inl (Error (''prefixed hex input should start with 0x, got '' @ take 2 hex))
      else Inr (bytesOfPairs (padToEven (drop 2 hex))))"


section \<open>History network: accumulator indices\<close>


text \<open>
  Modelled from the spec: the bodies of \<^verbatim>\<open>blockNumberToLeafIndex\<close> and
  \<^verbatim>\<open>blockNumberToGindex\<close> are not among the sources. Scenario A of the specification
  gives their values at the block numbers 1000 and 9192, and the repository's test
  asserts the same four values. \<open>scenarioA\<close> holds of two functions that have these
  values; nothing else is assumed of them.
\<close>

definition scenarioA :: "(nat \<Rightarrow> nat) \<Rightarrow> (nat \<Rightarrow> nat) \<Rightarrow> bool" where
  "scenarioA gindex leafIndex \<longleftrightarrow>
     gindex 1000 = 34768 \<and> gindex 9192 = 34768
     \<and> leafIndex 1000 = 2000 \<and> leafIndex 9192 = 2000"



section \<open>Beacon network: content keys\<close>

datatype BeaconLightClientNetworkContentType =
  LightClientBootstrap
| LightClientUpdatesByRange
| LightClientFinalityUpdate
| LightClientOptimisticUpdate

text \<open>
  The numeric values of the enum and the SSZ key types are declared in \<^verbatim>\<open>types.ts\<close>,
  which is not among the sources: \<open>code\<close> gives the number of each content type, and
  \<open>deserialize t\<close> is the \<^verbatim>\<open>deserialize\<close> method of the key type that
  \<^verbatim>\<open>decodeBeaconContentKey\<close> uses for \<open>t\<close> (it may throw).

  \<^verbatim>\<open>new Uint8Array(1).fill(contentType)\<close> stores the number modulo 256, which is what
  \<open>of_nat\<close> into \<open>8 word\<close> does; \<^verbatim>\<open>.slice(2)\<close> on the second hex string drops its
  \<^verbatim>\<open>0x\<close>.
\<close>

definition getBeaconContentKey ::
  "(BeaconLightClientNetworkContentType \<Rightarrow> nat) \<Rightarrow> BeaconLightClientNetworkContentType
     \<Rightarrow> bytes \<Rightarrow> string" where
  "getBeaconContentKey code contentType serializedKey =
     (let prefix = [of_nat (code contentType) :: byte]
      in toHexString prefix @ drop 2 (toHexString serializedKey))"

text \<open>A numbering of the content types by their place in the declaration above.\<close>

definition declaredOrder :: "BeaconLightClientNetworkContentType \<Rightarrow> nat" where
  "declaredOrder t = (case t of LightClientBootstrap \<Rightarrow> 0 | LightClientUpdatesByRange \<Rightarrow> 1
     | LightClientFinalityUpdate \<Rightarrow> 2 | LightClientOptimisticUpdate \<Rightarrow> 3)"

text \<open>
  \<^verbatim>\<open>serializedKey[0]\<close> of an empty array is \<^verbatim>\<open>undefined\<close>, which matches no case
  of the switch. The cases are tried in the order of the source.
\<close>

definition decodeBeaconContentKey ::
  "(BeaconLightClientNetworkContentType \<Rightarrow> nat)
     \<Rightarrow> (BeaconLightClientNetworkContentType \<Rightarrow> bytes \<Rightarrow> error + 'k)
     \<Rightarrow> bytes \<Rightarrow> error + 'k" where
  "decodeBeaconContentKey code deserialize serializedKey =
     (case serializedKey of
        [] \<Rightarrow> Inl (Error ''unknown content type undefined'')
      | selector # contentKeyBytes \<Rightarrow>
          if unat selector = code LightClientBootstrap
            then deserialize LightClientBootstrap contentKeyBytes
          else if unat selector = code LightClientOptimisticUpdate
            then deserialize LightClientOptimisticUpdate contentKeyBytes
          else if unat selector = code LightClientFinalityUpdate
            then deserialize LightClientFinalityUpdate contentKeyBytes
          else if unat selector = code LightClientUpdatesByRange
            then deserialize LightClientUpdatesByRange contentKeyBytes
          else Inl (Error (''unknown content type '' @ decimal (unat selector))))"


section \<open>History network: adding content\<close>

datatype HistoryNetworkContentTypes =
  BlockHeader | BlockBody | Receipt | EpochAccumulator | HeaderProof

datatype Event =
  ContentAdded string HistoryNetworkContentTypes string
| Verified string bool

text \<open>
  What \<^verbatim>\<open>addContentToHistory\<close> touches of \<^verbatim>\<open>this.history\<close>: the node id of the
  client's ENR, the client's database, the events emitted, the size of the routing
  table, the queue of the gossip manager and the state of the receipt manager (\<open>'r\<close>).
  \<open>written\<close> is the trace of the calls of \<^verbatim>\<open>db.put\<close>, kept to tell a write from a
  database that already held the value.
\<close>

record 'r History =
  nodeId :: nat
  historyDB :: "(string \<times> string) list"
  written :: "(string \<times> string) list"
  emitted :: "Event list"
  routingTableSize :: nat
  gossiped :: "(string \<times> HistoryNetworkContentTypes) list"
  receiptManager :: 'r

record 'r ContentManager =
  history :: "'r History"
  radius :: nat

definition dbPut :: "string \<Rightarrow> string \<Rightarrow> 'r History \<Rightarrow> 'r History" where
  "dbPut k v h = h\<lparr>historyDB := AList.update k v (historyDB h), written := written h @ [(k, v)]\<rparr>"

definition emit :: "Event \<Rightarrow> 'r History \<Rightarrow> 'r History" where
  "emit e h = h\<lparr>emitted := emitted h @ [e]\<rparr>"

text \<open>
  The chain library and the network, as the function calls them: the number of each
  content type, the RLP decoding of a header (\<open>'h\<close>) and its hash,
  \<^verbatim>\<open>reassembleBlock\<close> (header bytes, body bytes) into a block (\<open>'b\<close>),
  \<^verbatim>\<open>ETH.getBlockByHash\<close> (a block, or \<^verbatim>\<open>undefined\<close>), the number of transactions of a
  block, \<^verbatim>\<open>receiptManager.saveReceipts\<close>, the SSZ decoding of a proof (\<open>'p\<close>) and
  \<^verbatim>\<open>accumulator.verifyInclusionProof\<close>.
\<close>

record ('h, 'b, 'p, 'r) Chain =
  contentTypeCode :: "HistoryNetworkContentTypes \<Rightarrow> nat"
  fromRLPSerializedHeader :: "bytes \<Rightarrow> error + 'h"
  headerHash :: "'h \<Rightarrow> bytes"
  reassembleBlock :: "bytes \<Rightarrow> bytes \<Rightarrow> error + 'b"
  getBlockByHash :: "string \<Rightarrow> error + 'b option"
  transactionCount :: "'b \<Rightarrow> nat"
  saveReceipts :: "'b \<Rightarrow> 'r \<Rightarrow> error + 'r"
  deserializeProof :: "bytes \<Rightarrow> error + 'p"
  verifyInclusionProof :: "'p \<Rightarrow> string \<Rightarrow> error + bool"

text \<open>
  Modelled from the spec: \<^verbatim>\<open>getHistoryNetworkContentKey\<close> is not among the sources. A
  content key is encoded as the selector byte followed by the body; the function
  returns it as a hex string.
\<close>

definition getHistoryNetworkContentKey ::
  "('h, 'b, 'p, 'r) Chain \<Rightarrow> HistoryNetworkContentTypes \<Rightarrow> bytes \<Rightarrow> string" where
  "getHistoryNetworkContentKey c contentType hash =
     toHexString (of_nat (contentTypeCode c contentType) # hash)"

text \<open>
  How an arm of the \<^verbatim>\<open>switch\<close> ends: with \<^verbatim>\<open>return\<close>, with \<^verbatim>\<open>break\<close> (the code
  after the switch runs) or with an exception that nothing catches.
\<close>

datatype 'a outcome = Return 'a | Break 'a | Throw error 'a

definition addBlockHeader ::
  "('h, 'b, 'p, 'r) Chain \<Rightarrow> string \<Rightarrow> string \<Rightarrow> bytes \<Rightarrow> 'r History \<Rightarrow> 'r History outcome" where
  "addBlockHeader c contentKey hashKey val h =
     (case fromRLPSerializedHeader c val of
        Inl e \<Rightarrow> Return h
      | Inr header \<Rightarrow>
          if toHexString (headerHash c header) \<noteq> hashKey then Return h
          else Break (dbPut contentKey (toHexString val) h))"

text \<open>
  The \<^verbatim>\<open>try\<close> of the body arm: the block put together from the header stored under the
  key's hash and the body; \<open>None\<close> when anything of that throws (no header stored, a
  stored string that \<^verbatim>\<open>fromHexString\<close> refuses, a body that does not fit).
\<close>

definition assembleBlock ::
  "('h, 'b, 'p, 'r) Chain \<Rightarrow> bytes \<Rightarrow> bytes \<Rightarrow> 'r History \<Rightarrow> 'b option" where
  "assembleBlock c hash val h =
     (case map_of (historyDB h) (getHistoryNetworkContentKey c BlockHeader hash) of
        None \<Rightarrow> None
      | Some hexHeader \<Rightarrow>
          (case fromHexString hexHeader of
             Inl e \<Rightarrow> None
           | Inr rawHeader \<Rightarrow>
               (case reassembleBlock c rawHeader val of
                  Inl e \<Rightarrow> None
                | Inr block \<Rightarrow> Some block)))"

text \<open>The \<^verbatim>\<open>catch\<close>: the block is asked of the network.\<close>

definition findBlock ::
  "('h, 'b, 'p, 'r) Chain \<Rightarrow> string \<Rightarrow> bytes \<Rightarrow> bytes \<Rightarrow> 'r History \<Rightarrow> error + 'b option" where
  "findBlock c hashKey hash val h =
     (case assembleBlock c hash val h of
        Some block \<Rightarrow> Inr (Some block)
      | None \<Rightarrow> getBlockByHash c hashKey)"

definition addBlockBody ::
  "('h, 'b, 'p, 'r) Chain \<Rightarrow> string \<Rightarrow> string \<Rightarrow> bytes \<Rightarrow> bytes \<Rightarrow> 'r History
     \<Rightarrow> 'r History outcome" where
  "addBlockBody c contentKey hashKey hash val h =
     (if length val = 0 then Return h
      else (case findBlock c hashKey hash val h of
              Inl e \<Rightarrow> Throw e h
            | Inr None \<Rightarrow> Return h
            | Inr (Some block) \<Rightarrow>
                (let h1 = dbPut contentKey (toHexString val) h
                 in if transactionCount c block > 0
                      then (case saveReceipts c block (receiptManager h1) of
                              Inl e \<Rightarrow> Break h1
                            | Inr saved \<Rightarrow> Break (h1\<lparr>receiptManager := saved\<rparr>))
                    else Break h1)))"

definition addHeaderProof ::
  "('h, 'b, 'p, 'r) Chain \<Rightarrow> string \<Rightarrow> bytes \<Rightarrow> 'r History \<Rightarrow> 'r History outcome" where
  "addHeaderProof c hashKey val h =
     (case deserializeProof c val of
        Inl e \<Rightarrow> Break (emit (Verified hashKey False) h)
      | Inr proof \<Rightarrow>
          (case verifyInclusionProof c proof hashKey of
             Inl e \<Rightarrow> Break (emit (Verified hashKey False) h)
           | Inr verified \<Rightarrow> Break (emit (Verified hashKey verified) h)))"

text \<open>The code after the \<^verbatim>\<open>switch\<close>: the event, then the gossip.\<close>

definition announce ::
  "HistoryNetworkContentTypes \<Rightarrow> string \<Rightarrow> bytes \<Rightarrow> 'r History \<Rightarrow> 'r History" where
  "announce contentType hashKey val h =
     (let h1 = (if contentType \<noteq> HeaderProof
                  then emit (ContentAdded hashKey contentType (toHexString val)) h else h)
      in if routingTableSize h1 > 0
           then h1\<lparr>gossiped := gossiped h1 @ [(hashKey, contentType)]\<rparr>
         else h1)"

text \<open>
  \<^verbatim>\<open>fromHexString(hashKey)\<close> on the first line throws on a string with an odd number
  of digits, before anything else happens. The \<^verbatim>\<open>default\<close> arm of the switch is not
  reached by a value of the enum.
\<close>

definition addContentToHistory ::
  "('h, 'b, 'p, 'r) Chain \<Rightarrow> HistoryNetworkContentTypes \<Rightarrow> string \<Rightarrow> bytes
     \<Rightarrow> 'r ContentManager \<Rightarrow> (error + unit) \<times> 'r ContentManager" where
  "addContentToHistory c contentType hashKey val m =
     (case fromHexString hashKey of
        Inl e \<Rightarrow> (Inl e, m)
      | Inr hash \<Rightarrow>
          (let contentKey = getHistoryNetworkContentKey c contentType hash;
               h = history m;
               arm = (case contentType of
                   BlockHeader \<Rightarrow> addBlockHeader c contentKey hashKey val h
                 | BlockBody \<Rightarrow> addBlockBody c contentKey hashKey hash val h
                 | Receipt \<Rightarrow>
                     Break (dbPut (getHistoryNetworkContentKey c Receipt hash) (toHexString val) h)
                 | EpochAccumulator \<Rightarrow>
                     Break (dbPut (getHistoryNetworkContentKey c EpochAccumulator hash)
                       (toHexString val) h)
                 | HeaderProof \<Rightarrow> addHeaderProof c hashKey val h)
           in case arm of
                Return h' \<Rightarrow> (Inr (), m\<lparr>history := h'\<rparr>)
              | Throw e h' \<Rightarrow> (Inl e, m\<lparr>history := h'\<rparr>)
              | Break h' \<Rightarrow> (Inr (), m\<lparr>history := announce contentType hashKey val h'\<rparr>)))"

text \<open>
  The admission rule of the specification, for comparison: the XOR distance between the
  node id and the content id is at most the radius. And three of its verifiers, in its
  words: for a block body, ``reassemble with the stored header; the reconstructed
  block's header hash must equal the key's hash''; for receipts, ``trie-root from the
  decoded receipt list must equal the stored header's receiptsRoot''; for an epoch
  accumulator, ``keccak-256 of encoded record list must equal the key's epoch root''.
  The functions of the chain library that they need are parameters.
\<close>

definition withinRadius :: "'r ContentManager \<Rightarrow> nat \<Rightarrow> bool" where
  "withinRadius m contentId \<longleftrightarrow> unat (word_of_nat (nodeId (history m)) XOR word_of_nat contentId :: 256 word) \<le> radius m"

definition specBodyVerifier ::
  "('h, 'b, 'p, 'r) Chain \<Rightarrow> ('b \<Rightarrow> bytes) \<Rightarrow> 'r History \<Rightarrow> bytes \<Rightarrow> bytes \<Rightarrow> bool" where
  "specBodyVerifier c blockHash h hash val \<longleftrightarrow>
     (case map_of (historyDB h) (getHistoryNetworkContentKey c BlockHeader hash) of
        None \<Rightarrow> False
      | Some hexHeader \<Rightarrow>
          (case fromHexString hexHeader of
             Inl e \<Rightarrow> False
           | Inr rawHeader \<Rightarrow>
               (case reassembleBlock c rawHeader val of
                  Inl e \<Rightarrow> False
                | Inr block \<Rightarrow> blockHash block = hash)))"

definition receiptsVerifier ::
  "('h, 'b, 'p, 'r) Chain \<Rightarrow> (bytes \<Rightarrow> error + bytes) \<Rightarrow> ('h \<Rightarrow> bytes) \<Rightarrow> 'r History
     \<Rightarrow> bytes \<Rightarrow> bytes \<Rightarrow> bool" where
  "receiptsVerifier c receiptTrieRoot receiptsRoot h hash val \<longleftrightarrow>
     (case map_of (historyDB h) (getHistoryNetworkContentKey c BlockHeader hash) of
        None \<Rightarrow> False
      | Some hexHeader \<Rightarrow>
          (case fromHexString hexHeader of
             Inl e \<Rightarrow> False
           | Inr rawHeader \<Rightarrow>
               (case fromRLPSerializedHeader c rawHeader of
                  Inl e \<Rightarrow> False
                | Inr header \<Rightarrow> receiptTrieRoot val = Inr (receiptsRoot header))))"

definition specEpochVerifier :: "(bytes \<Rightarrow> bytes) \<Rightarrow> bytes \<Rightarrow> bytes \<Rightarrow> bool" where
  "specEpochVerifier keccak256 hash val \<longleftrightarrow> keccak256 val = hash"

text \<open>The same manager with another node id and another radius.\<close>

definition relocate :: "nat \<Rightarrow> nat \<Rightarrow> 'r ContentManager \<Rightarrow> 'r ContentManager" where
  "relocate node r m = m\<lparr>radius := r, history := (history m)\<lparr>nodeId := node\<rparr>\<rparr>"

text \<open>
  Two test doubles of the chain library; both number the content types as declared.
  With \<open>offline\<close> no header decodes, no block can be put together or fetched and no
  proof decodes. With \<open>echo\<close> a header is its own bytes (the empty string is none) and
  its own hash, a block is a header with a body, the network has a block for every key,
  and a proof is verified when it is not empty.
\<close>

definition offline :: "(unit, unit, unit, unit) Chain" where
  "offline =
     \<lparr>contentTypeCode = (\<lambda>t. case t of BlockHeader \<Rightarrow> 0 | BlockBody \<Rightarrow> 1 | Receipt \<Rightarrow> 2
          | EpochAccumulator \<Rightarrow> 3 | HeaderProof \<Rightarrow> 4),
      fromRLPSerializedHeader = (\<lambda>raw. Inl (Error ''invalid header'')),
      headerHash = (\<lambda>header. []),
      reassembleBlock = (\<lambda>rawHeader body. Inl (Error ''invalid block'')),
      getBlockByHash = (\<lambda>hashKey. Inr None),
      transactionCount = (\<lambda>block. 0),
      saveReceipts = (\<lambda>block saved. Inr saved),
      deserializeProof = (\<lambda>raw. Inl (Error ''invalid proof'')),
      verifyInclusionProof = (\<lambda>proof hashKey. Inr False)\<rparr>"

definition echo :: "(bytes, bytes \<times> bytes, bytes, unit) Chain" where
  "echo =
     \<lparr>contentTypeCode = (\<lambda>t. case t of BlockHeader \<Rightarrow> 0 | BlockBody \<Rightarrow> 1 | Receipt \<Rightarrow> 2
          | EpochAccumulator \<Rightarrow> 3 | HeaderProof \<Rightarrow> 4),
      fromRLPSerializedHeader = (\<lambda>raw. if raw = [] then Inl (Error ''invalid header'') else Inr raw),
      headerHash = (\<lambda>header. header),
      reassembleBlock = (\<lambda>rawHeader body.
        if rawHeader = [] then Inl (Error ''invalid block'') else Inr (rawHeader, body)),
      getBlockByHash = (\<lambda>hashKey. Inr (Some ([], []))),
      transactionCount = (\<lambda>block. 0),
      saveReceipts = (\<lambda>block saved. Inr saved),
      deserializeProof = (\<lambda>raw. Inr raw),
      verifyInclusionProof = (\<lambda>proof hashKey. Inr (proof \<noteq> []))\<rparr>"

definition newContentManager :: "nat \<Rightarrow> nat \<Rightarrow> unit ContentManager" where
  "newContentManager node r =
     \<lparr>history = \<lparr>nodeId = node, historyDB = [], written = [], emitted = [], routingTableSize = 0,
        gossiped = [], receiptManager = ()\<rparr>,
      radius = r\<rparr>"


section \<open>State network: the protocol object\<close>

text \<open>
  A \<^verbatim>\<open>Uint8Array\<close> that a decoder hands out is a view of an \<^verbatim>\<open>ArrayBuffer\<close>: its
  bytes are \<open>byteLength\<close> bytes of the buffer from \<open>byteOffset\<close> on.
\<close>

record Uint8ArrayView =
  buffer :: bytes
  byteOffset :: nat
  byteLength :: nat

definition viewBytes :: "Uint8ArrayView \<Rightarrow> bytes" where
  "viewBytes a = take (byteLength a) (drop (byteOffset a) (buffer a))"

text \<open>
  The decoded CONTENT message, a union by selector: 0 a uTP connection id, 1 the content
  itself, 2 a list of ENRs (\<^verbatim>\<open>FoundContent.UTP\<close>, \<^verbatim>\<open>.CONTENT\<close>, \<^verbatim>\<open>.ENRS\<close>).
\<close>

datatype ContentMessage =
  UTP Uint8ArrayView
| CONTENT Uint8ArrayView
| ENRS "Uint8ArrayView list"

fun selector :: "ContentMessage \<Rightarrow> nat" where
  "selector (UTP _) = 0"
| "selector (CONTENT _) = 1"
| "selector (ENRS _) = 2"

text \<open>
  \<^verbatim>\<open>new DataView(buffer).getUint16(0, false)\<close>: the first two bytes of the whole buffer,
  big-endian; a \<^verbatim>\<open>RangeError\<close> when the buffer is shorter.
\<close>

definition getUint16 :: "bytes \<Rightarrow> error + nat" where
  "getUint16 buf = (case buf of b0 # b1 # _ \<Rightarrow> Inr (256 * unat b0 + unat b1) | _ \<Rightarrow> Inl RangeError)"

datatype ProtocolId = HistoryNetwork | StateNetwork | BeaconLightClientNetwork | CanonicalIndicesNetwork

datatype RequestCode = FINDCONTENT_READ | OtherRequestCode nat

record NewRequest =
  protocolId :: ProtocolId
  contentKeys :: "bytes list"
  peerId :: string
  connectionId :: nat
  requestCode :: RequestCode
  contents :: "bytes list"

record Metrics =
  findContentMessagesSent :: nat
  contentMessagesReceived :: nat

text \<open>
  The protocol object, as far as \<^verbatim>\<open>sendFindContent\<close> and \<^verbatim>\<open>findContentLocally\<close> touch
  it: the routing table (node id to ENR), the optional metrics, the content store of
  the state network and the transfer requests opened so far.
\<close>

record 'enr StateProtocol =
  routingTable :: "(string \<times> 'enr) list"
  metrics :: "Metrics option"
  contentDB :: "(string \<times> string) list"
  utpRequests :: "NewRequest list"

text \<open>
  What the protocol calls outside itself: \<^verbatim>\<open>ENR.decodeTxt\<close>, the network
  (\<^verbatim>\<open>sendMessage\<close>, which answers with the bytes of the response), the SSZ codecs of
  the wire messages and \<^verbatim>\<open>decodeHistoryNetworkContentKey\<close>. Each may throw.
\<close>

record 'enr Wire =
  decodeTxt :: "string \<Rightarrow> error + 'enr"
  sendMessage :: "'enr \<Rightarrow> bytes \<Rightarrow> ProtocolId \<Rightarrow> error + bytes"
  serializeFindContent :: "bytes \<Rightarrow> bytes"
  deserializeContent :: "bytes \<Rightarrow> error + ContentMessage"
  decodeHistoryNetworkContentKey :: "string \<Rightarrow> error + (nat \<times> string)"

definition MessageCodes_CONTENT :: nat where
  "MessageCodes_CONTENT = 5"

text \<open>
  Modelled from the spec: \<^verbatim>\<open>BaseProtocol.retrieve\<close>, \<^verbatim>\<open>BaseProtocol.put\<close> and
  \<^verbatim>\<open>BaseProtocol.handleNewRequest\<close> are not among the sources. Per the content store of
  the specification, lookup returns the value or absent, and a write puts the value
  under its key; per the lookup engine, the bulk-transfer arm opens a transfer session
  with the supplied connection id, which the model records in \<open>utpRequests\<close>.
\<close>

definition retrieve :: "'enr StateProtocol \<Rightarrow> string \<Rightarrow> string option" where
  "retrieve s contentKey = map_of (contentDB s) contentKey"

definition put :: "ProtocolId \<Rightarrow> string \<Rightarrow> string \<Rightarrow> 'enr StateProtocol \<Rightarrow> 'enr StateProtocol" where
  "put protocol contentKey content s = s\<lparr>contentDB := AList.update contentKey content (contentDB s)\<rparr>"

definition handleNewRequest :: "NewRequest \<Rightarrow> 'enr StateProtocol \<Rightarrow> 'enr StateProtocol" where
  "handleNewRequest request s = s\<lparr>utpRequests := utpRequests s @ [request]\<rparr>"

definition stateStore :: "string \<Rightarrow> string \<Rightarrow> 'enr StateProtocol \<Rightarrow> 'enr StateProtocol" where
  "stateStore contentKey content s = put StateNetwork contentKey content s"

definition countSent :: "'enr StateProtocol \<Rightarrow> 'enr StateProtocol" where
  "countSent s = s\<lparr>metrics :=
     map_option (\<lambda>m. m\<lparr>findContentMessagesSent := findContentMessagesSent m + 1\<rparr>) (metrics s)\<rparr>"

definition countReceived :: "'enr StateProtocol \<Rightarrow> 'enr StateProtocol" where
  "countReceived s = s\<lparr>metrics :=
     map_option (\<lambda>m. m\<lparr>contentMessagesReceived := contentMessagesReceived m + 1\<rparr>) (metrics s)\<rparr>"

text \<open>
  The ENR of the peer: decoded from \<open>dstId\<close> when that is a text ENR, else looked up in
  the routing table under \<open>dstId\<close>, else under \<open>dstId\<close> without its first two characters.
\<close>

definition findEnr :: "'enr Wire \<Rightarrow> string \<Rightarrow> 'enr StateProtocol \<Rightarrow> error + 'enr option" where
  "findEnr w dstId s =
     (if take 4 dstId = ''enr:''
        then (case decodeTxt w dstId of Inl e \<Rightarrow> Inl e | Inr enr \<Rightarrow> Inr (Some enr))
      else (case map_of (routingTable s) dstId of
              Some enr \<Rightarrow> Inr (Some enr)
            | None \<Rightarrow> Inr (map_of (routingTable s) (drop 2 dstId))))"

text \<open>
  The body of the \<^verbatim>\<open>try\<close> block, for a non-empty response \<open>res\<close>. Whatever throws
  inside is caught and logged, and the function then returns \<^verbatim>\<open>undefined\<close> (\<open>None\<close>);
  so it does when the response is no CONTENT message.
\<close>

definition handleResponse ::
  "'enr Wire \<Rightarrow> string \<Rightarrow> bytes \<Rightarrow> bytes \<Rightarrow> 'enr StateProtocol
     \<Rightarrow> ContentMessage option \<times> 'enr StateProtocol" where
  "handleResponse w dstId key res s =
     (if unat (hd res) = MessageCodes_CONTENT then
        (let s1 = countReceived s in
         case deserializeContent w (tl res) of
           Inl e \<Rightarrow> (None, s1)
         | Inr decoded \<Rightarrow>
            (case decodeHistoryNetworkContentKey w (toHexString key) of
               Inl e \<Rightarrow> (None, s1)
             | Inr contentKey \<Rightarrow>
                (case decoded of
                   UTP v \<Rightarrow>
                     (case getUint16 (buffer v) of
                        Inl e \<Rightarrow> (None, s1)
                      | Inr connId \<Rightarrow>
                          (Some decoded,
                           handleNewRequest
                             \<lparr>protocolId = StateNetwork, contentKeys = [key], peerId = dstId,
                              connectionId = connId, requestCode = FINDCONTENT_READ, contents = []\<rparr> s1))
                 | CONTENT v \<Rightarrow>
                     (Some decoded, stateStore (toHexString key) (toHexString (viewBytes v)) s1)
                 | ENRS enrs \<Rightarrow> (Some decoded, s1))))
      else (None, s))"

definition sendFindContent ::
  "'enr Wire \<Rightarrow> string \<Rightarrow> bytes \<Rightarrow> 'enr StateProtocol
     \<Rightarrow> (error + ContentMessage option) \<times> 'enr StateProtocol" where
  "sendFindContent w dstId key s =
     (case findEnr w dstId s of
        Inl e \<Rightarrow> (Inl e, s)
      | Inr None \<Rightarrow> (Inr None, s)
      | Inr (Some enr) \<Rightarrow>
          (let s1 = countSent s;
               payload = serializeFindContent w key
           in case sendMessage w enr payload StateNetwork of
                Inl e \<Rightarrow> (Inl e, s1)
              | Inr res \<Rightarrow>
                  if length res = 0 then (Inr None, s1)
                  else (case handleResponse w dstId key res s1 of
                          (result, s2) \<Rightarrow> (Inr result, s2))))"

text \<open>
  A test double of the network: one known peer, which answers every request with a
  CONTENT message whose union is the uTP arm with connection id bytes \<open>01 02\<close>.
\<close>

definition uTPPeer :: "nat Wire" where
  "uTPPeer =
     \<lparr>decodeTxt = (\<lambda>txt. Inl (Error ''not a text ENR'')),
      sendMessage = (\<lambda>enr payload protocol. Inr [5, 0, 1, 2]),
      serializeFindContent = (\<lambda>key. 4 # key),
      deserializeContent = (\<lambda>bs. case bs of
          [sel, hi, lo] \<Rightarrow> if sel = 0
            then Inr (UTP \<lparr>buffer = [hi, lo], byteOffset = 0, byteLength = 2\<rparr>)
            else Inl (Error ''not a connection id'')
        | _ \<Rightarrow> Inl (Error ''not a connection id'')),
      decodeHistoryNetworkContentKey = (\<lambda>hex. Inr (0, drop 4 hex))\<rparr>"

definition onePeer :: "nat StateProtocol" where
  "onePeer = \<lparr>routingTable = [(''ab12'', 7)], metrics = None, contentDB = [], utpRequests = []\<rparr>"

text \<open>
  \<^verbatim>\<open>value ? hexToBytes(value) : hexToBytes('0x')\<close>: \<^verbatim>\<open>undefined\<close> and the empty
  string are the two values of \<open>retrieve\<close> that count as false.
\<close>

definition findContentLocally :: "'enr StateProtocol \<Rightarrow> bytes \<Rightarrow> error + bytes" where
  "findContentLocally s contentKey =
     (case retrieve s (toHexString contentKey) of
        None \<Rightarrow> hexToBytes ''0x''
      | Some v \<Rightarrow> if v \<noteq> [] then hexToBytes v else hexToBytes ''0x'')"

section \<open>State network: the accounts of an address\<close>

record Account =
  nonce :: int
  balance :: int
  storageRoot :: bytes
  codeHash :: bytes

text \<open>
  \<^verbatim>\<open>Record<StateRootHex, Account>\<close> is a JavaScript object. The model holds its
  entries in the order in which the keys were added, with distinct keys. The object
  lists its keys in another order when some are array indices (the decimal numbers below
  \<open>2 ^ 32 - 1\<close>, written without leading zeros): these come first, in numeric order, and
  the other keys follow in the order in which they were added.
\<close>

record AccountRecord =
  address :: string
  accounts :: "(string \<times> Account) list"

text \<open>
  \<^verbatim>\<open>Number(x)\<close> of a bigint is the double nearest to \<open>x\<close>: a significand of 53 bits,
  ties to the even significand, and an infinity from \<open>2 ^ 1024\<close> on.
\<close>

datatype jsNumber = Finite int | PosInfinity | NegInfinity

fun bitLength :: "nat \<Rightarrow> nat" where
  "bitLength n = (if n = 0 then 0 else Suc (bitLength (n div 2)))"

declare bitLength.simps [simp del]

definition roundToDouble :: "nat \<Rightarrow> nat" where
  "roundToDouble m =
     (let e = bitLength m - 53; q = m div 2 ^ e; r = m mod 2 ^ e
      in if 2 * r < 2 ^ e \<or> (2 * r = 2 ^ e \<and> even q) then q * 2 ^ e else (q + 1) * 2 ^ e)"

definition Number :: "int \<Rightarrow> jsNumber" where
  "Number x =
     (let m = roundToDouble (nat \<bar>x\<bar>)
      in if 2 ^ 1024 \<le> m then (if x < 0 then NegInfinity else PosInfinity)
         else Finite (if x < 0 then - int m else int m))"

fun positive :: "jsNumber \<Rightarrow> bool" where
  "positive (Finite i) = (0 < i)"
| "positive PosInfinity = True"
| "positive NegInfinity = False"

text \<open>
  \<^verbatim>\<open>Array.prototype.sort\<close> with a comparison function is a stable sort; which
  comparisons it makes is left to the engine. The model is the stable insertion sort:
  an element goes before the first element of the sorted rest that it does not compare
  greater than (a positive result of the comparison). An exception of the comparison
  function ends the sort.
\<close>

fun insertBy :: "('a \<Rightarrow> 'a \<Rightarrow> error + jsNumber) \<Rightarrow> 'a \<Rightarrow> 'a list \<Rightarrow> error + 'a list" where
  "insertBy cmp x [] = Inr [x]"
| "insertBy cmp x (y # ys) =
     (case cmp x y of
        Inl e \<Rightarrow> Inl e
      | Inr v \<Rightarrow>
          if positive v
            then (case insertBy cmp x ys of Inl e \<Rightarrow> Inl e | Inr zs \<Rightarrow> Inr (y # zs))
          else Inr (x # y # ys))"

fun sortBy :: "('a \<Rightarrow> 'a \<Rightarrow> error + jsNumber) \<Rightarrow> 'a list \<Rightarrow> error + 'a list" where
  "sortBy cmp [] = Inr []"
| "sortBy cmp (x # xs) =
     (case sortBy cmp xs of Inl e \<Rightarrow> Inl e | Inr ys \<Rightarrow> insertBy cmp x ys)"

text \<open>
  The comparison function of \<^verbatim>\<open>sortAccountRecord\<close>. Reading \<^verbatim>\<open>.nonce\<close> of the
  \<^verbatim>\<open>undefined\<close> that a missing key gives is a \<^verbatim>\<open>TypeError\<close>; \<^verbatim>\<open>===\<close> on bigints
  compares their values.
\<close>

definition compareRoots :: "(string \<times> Account) list \<Rightarrow> string \<Rightarrow> string \<Rightarrow> error + jsNumber" where
  "compareRoots accs root1 root2 =
     (case map_of accs root1 of
        None \<Rightarrow> Inl TypeError
      | Some a1 \<Rightarrow>
          (case map_of accs root2 of
             None \<Rightarrow> Inl TypeError
           | Some a2 \<Rightarrow>
               if nonce a1 = nonce a2 then Inr (Number (balance a1 - balance a2))
               else Inr (Number (nonce a1 - nonce a2))))"

definition isDecimalDigit :: "char \<Rightarrow> bool" where
  "isDecimalDigit c \<longleftrightarrow> c \<in> set ''0123456789''"

definition decimalValue :: "string \<Rightarrow> nat" where
  "decimalValue k = foldl (\<lambda>n c. 10 * n + (case hexValue c of None \<Rightarrow> 0 | Some d \<Rightarrow> d)) 0 k"

definition isArrayIndex :: "string \<Rightarrow> bool" where
  "isArrayIndex k \<longleftrightarrow>
     k \<noteq> [] \<and> list_all isDecimalDigit k \<and> (k = ''0'' \<or> hd k \<noteq> CHR ''0'')
     \<and> decimalValue k < 2 ^ 32 - 1"

definition ownPropertyOrder :: "(string \<times> 'v) list \<Rightarrow> (string \<times> 'v) list" where
  "ownPropertyOrder es =
     sort_key (\<lambda>e. decimalValue (fst e)) (filter (\<lambda>e. isArrayIndex (fst e)) es)
     @ filter (\<lambda>e. \<not> isArrayIndex (fst e)) es"

text \<open>\<^verbatim>\<open>Object.keys\<close>, and \<^verbatim>\<open>Object.fromEntries\<close>, where a later entry of a key
  replaces the value in place.\<close>

definition objectKeys :: "(string \<times> 'v) list \<Rightarrow> string list" where
  "objectKeys obj = map fst (ownPropertyOrder obj)"

definition fromEntries :: "(string \<times> 'v) list \<Rightarrow> (string \<times> 'v) list" where
  "fromEntries es = foldl (\<lambda>obj (k, v). AList.update k v obj) [] es"

text \<open>
  The roots sorted are the keys of the object, so each \<^verbatim>\<open>accountRecord.accounts[root]\<close>
  of the final \<^verbatim>\<open>map\<close> finds its account (lemma \<open>own_keys_found\<close> below). The result is
  given as the caller reads it, in the order in which the new object lists its keys.
\<close>

definition sortAccountRecord :: "AccountRecord \<Rightarrow> error + AccountRecord" where
  "sortAccountRecord accountRecord =
     (let roots = objectKeys (accounts accountRecord)
      in case sortBy (compareRoots (accounts accountRecord)) roots of
           Inl e \<Rightarrow> Inl e
         | Inr sortedRoots \<Rightarrow>
             Inr \<lparr>address = address accountRecord,
                  accounts = ownPropertyOrder (fromEntries
                    (List.map_filter
                      (\<lambda>root. map_option (Pair root) (map_of (accounts accountRecord) root))
                      sortedRoots))\<rparr>)"

text \<open>
  The order the specification names: by nonce, then by balance, as integers.
  \<open>precedes xs x y\<close>: \<open>y\<close> stands somewhere after the first \<open>x\<close> in \<open>xs\<close>.
\<close>

definition lessAccount :: "Account \<Rightarrow> Account \<Rightarrow> bool" where
  "lessAccount a1 a2 \<longleftrightarrow> nonce a1 < nonce a2 \<or> (nonce a1 = nonce a2 \<and> balance a1 < balance a2)"

definition precedes :: "'a list \<Rightarrow> 'a \<Rightarrow> 'a \<Rightarrow> bool" where
  "precedes xs x y \<longleftrightarrow> y \<in> set (tl (dropWhile (\<lambda>z. z \<noteq> x) xs))"

text \<open>The sorting key of an entry, a pair under the lexicographic order.\<close>

abbreviation (input) keyOf :: "string \<times> Account \<Rightarrow> int \<times> int" where
  "keyOf e \<equiv> (nonce (snd e), balance (snd e))"


section \<open>State network: the tries by state root\<close>

text \<open>
  A \<^verbatim>\<open>MemoryLevel\<close> database: its status, its entries, and how many more polls of its
  status find it still opening (what the event loop decides; a \<^verbatim>\<open>MemoryLevel\<close> opens
  without fail). A \<^verbatim>\<open>TrieLevel\<close> is a wrapper around a database, which several
  wrappers may share: it holds the database's place in \<open>levels\<close>, the databases in
  existence.
\<close>

datatype TrieLevelStatus = Opening | Open | Closing | Closed

record MemoryLevel =
  status :: TrieLevelStatus
  entries :: "(string \<times> string) list"
  openDelay :: nat

datatype TrieLevel = TrieLevel (db: nat)

record 'idx StateDB =
  accountTries :: "(string \<times> TrieLevel) list"
  knownAddresses :: "string list"
  stateRootIndex :: 'idx
  levels :: "MemoryLevel list"


definition newMemoryLevel :: "nat \<Rightarrow> MemoryLevel" where
  "newMemoryLevel delay = \<lparr>status = Opening, entries = [], openDelay = delay\<rparr>"

text \<open>\<^verbatim>\<open>db.open()\<close>: a closed database starts to open; any other is left as it is.\<close>

definition dbOpen :: "MemoryLevel \<Rightarrow> MemoryLevel" where
  "dbOpen m = (if status m = Closed then m\<lparr>status := Opening\<rparr> else m)"

text \<open>One timeout of 100 ms goes by.\<close>

definition elapse :: "MemoryLevel \<Rightarrow> MemoryLevel" where
  "elapse m =
     (if status m = Opening
        then (if openDelay m = 0 then m\<lparr>status := Open\<rparr> else m\<lparr>openDelay := openDelay m - 1\<rparr>)
      else m)"

text \<open>
  \<^verbatim>\<open>while (sub.status !== 'open') await new Promise(r => setTimeout(r, 100))\<close>. The loop
  does not end for a database that is closed or closing: the result is then \<open>None\<close>.
\<close>

partial_function (option) pollUntilOpen :: "MemoryLevel \<Rightarrow> MemoryLevel option" where
  "pollUntilOpen m = (if status m \<noteq> Open then pollUntilOpen (elapse m) else Some m)"

definition putSublevel :: "bytes \<Rightarrow> TrieLevel \<Rightarrow> 'idx StateDB \<Rightarrow> 'idx StateDB" where
  "putSublevel stateRoot sublevel s =
     s\<lparr>accountTries := AList.update (toHexString stateRoot) sublevel (accountTries s)\<rparr>"


text \<open>
  \<^verbatim>\<open>addRoot\<close>: a new \<^verbatim>\<open>TrieLevel\<close> over a new \<^verbatim>\<open>MemoryLevel\<close> (which needs \<open>delay\<close>
  polls to open) is registered, opened and awaited.
\<close>

definition addRoot :: "nat \<Rightarrow> bytes \<Rightarrow> 'idx StateDB \<Rightarrow> (TrieLevel \<times> 'idx StateDB) option" where
  "addRoot delay stateRoot s =
     (let r = length (levels s);
          sub = TrieLevel r;
          s1 = putSublevel stateRoot sub (s\<lparr>levels := levels s @ [newMemoryLevel delay]\<rparr>);
          s2 = s1\<lparr>levels := (levels s1)[r := dbOpen (levels s1 ! r)]\<rparr>
      in case pollUntilOpen (levels s2 ! r) of
           None \<Rightarrow> None
         | Some m \<Rightarrow> Some (sub, s2\<lparr>levels := (levels s2)[r := m]\<rparr>))"

definition getSublevel :: "nat \<Rightarrow> bytes \<Rightarrow> 'idx StateDB \<Rightarrow> (TrieLevel \<times> 'idx StateDB) option" where
  "getSublevel delay stateRoot s =
     (case map_of (accountTries s) (toHexString stateRoot) of
        Some sublevel \<Rightarrow> Some (sublevel, s)
      | None \<Rightarrow> addRoot delay stateRoot s)"






text \<open>
  A promise, once settled. An \<^verbatim>\<open>async\<close> function returns one; code that does not
  \<^verbatim>\<open>await\<close> it holds the promise itself, an object, and an object is truthy whatever
  the promise settles to.
\<close>

datatype 'a Promise = Resolved 'a | Rejected error











section \<open>The state manager over the state network\<close>

text \<open>
  \<open>'net\<close> is the \<^verbatim>\<open>StateNetwork\<close> object the manager reads from (with its tries and
  its content store); the manager holds it in \<open>stateNetwork\<close> (the field \<^verbatim>\<open>state\<close> of
  the class).
\<close>

record 'net UltralightStateManager =
  originalStorageCache :: "((string \<times> bytes) \<times> bytes) list"
  stateNetwork :: 'net
  stateRoot :: string
  stateRootBytes :: bytes

definition newUltralightStateManager :: "'net \<Rightarrow> 'net UltralightStateManager" where
  "newUltralightStateManager net =
     \<lparr>originalStorageCache = [], stateNetwork = net, stateRoot = [], stateRootBytes = []\<rparr>"

text \<open>
  A method maps the manager to its outcome (\<open>Inl\<close>: what it throws) and the manager
  afterwards. The arguments of the mutating methods play no part in what they do, so a
  call is named by its method alone; \<open>SetStateRoot\<close> carries the new root.
\<close>

datatype managerCall =
  PutAccount
| DeleteAccount
| ModifyAccountFields
| PutContractCode
| PutContractStorage
| ClearContractStorage
| Checkpoint
| Commit
| Revert
| SetStateRoot bytes

definition notImplemented :: error where
  "notImplemented = Error ''Method not implemented.''"

fun call :: "managerCall \<Rightarrow> 'net UltralightStateManager
    \<Rightarrow> (error + unit) \<times> 'net UltralightStateManager" where
  "call PutAccount m = (Inr (), m)"
| "call DeleteAccount m = (Inl notImplemented, m)"
| "call ModifyAccountFields m = (Inl notImplemented, m)"
| "call PutContractCode m = (Inl notImplemented, m)"
| "call PutContractStorage m = (Inl notImplemented, m)"
| "call ClearContractStorage m = (Inl notImplemented, m)"
| "call Checkpoint m = (Inr (), m)"
| "call Commit m = (Inr (), m)"
| "call Revert m = (Inl notImplemented, m)"
| "call (SetStateRoot root) m =
     (Inr (), m\<lparr>stateRootBytes := root, stateRoot := bytesToHex root\<rparr>)"

definition getStateRoot :: "'net UltralightStateManager \<Rightarrow> bytes" where
  "getStateRoot m = stateRootBytes m"

text \<open>A client's sequence of calls, each one caught if it throws.\<close>

fun calls :: "managerCall list \<Rightarrow> 'net UltralightStateManager \<Rightarrow> 'net UltralightStateManager" where
  "calls [] m = m"
| "calls (c # cs) m = calls cs (snd (call c m))"

text \<open>The root most recently passed to \<^verbatim>\<open>setStateRoot\<close>, given the root before.\<close>

fun lastRoot :: "bytes \<Rightarrow> managerCall list \<Rightarrow> bytes" where
  "lastRoot r [] = r"
| "lastRoot r (SetStateRoot r' # cs) = lastRoot r' cs"
| "lastRoot r (c # cs) = lastRoot r cs"


section \<open>Theorems\<close>

subsection \<open>Hex strings\<close>

lemma hexValue_hexDigit: "hexValue (hexDigit n) = Some (n mod 16)"
proof -
  define m where "m = n mod 16"
  then have "m < 16" by simp
  then have "m = 0 \<or> m = 1 \<or> m = 2 \<or> m = 3 \<or> m = 4 \<or> m = 5 \<or> m = 6 \<or> m = 7
      \<or> m = 8 \<or> m = 9 \<or> m = 10 \<or> m = 11 \<or> m = 12 \<or> m = 13 \<or> m = 14 \<or> m = 15"
    by arith
  then have "hexValue (''0123456789abcdef'' ! m) = Some m"
    by (elim disjE) (simp_all add: hexValue_def)
  then show ?thesis by (simp add: hexDigit_def m_def)
qed

lemma hexValue_char:
  assumes "hexValue c = Some v"
  shows "c \<in> set ''0123456789abcdefABCDEF''"
proof -
  from assms have "c \<in> fst ` set (zip ''0123456789abcdefABCDEF''
     [0, 1, 2, 3, 4, 5, 6, 7, 8, 9, 10, 11, 12, 13, 14, 15, 10, 11, 12, 13, 14, 15 :: nat])"
    unfolding hexValue_def by (metis domI dom_map_of_conv_image_fst)
  then show ?thesis by auto
qed

lemma parseInt16_digits:
  assumes "hexValue h = Some a" and "hexValue l = Some b"
  shows "parseInt16 [h, l] = Some (int (16 * a + b))"
proof -
  from hexValue_char [OF assms(1)]
  have h: "\<not> isWhiteSpace h" "h \<noteq> CHR ''-''" "h \<noteq> CHR ''+''"
    by (auto simp: isWhiteSpace_def)
  from hexValue_char [OF assms(2)]
  have l: "l \<noteq> CHR ''x''" "l \<noteq> CHR ''X''"
    by auto
  show ?thesis
    using h l assms by (simp add: parseInt16_def Let_def)
qed

lemma nibbles_of_byte: "16 * (unat (b::byte) div 16 mod 16) + unat b mod 16 mod 16 = unat b"
proof -
  have "unat b < 2 ^ LENGTH(8)" by (rule unsigned_less)
  then have "unat b div 16 mod 16 = unat b div 16" by simp
  then show ?thesis by simp
qed

lemma bytesOfPairs_hexOfBytes: "bytesOfPairs (hexOfBytes bs) = bs"
proof (induction bs)
  case Nil
  then show ?case by simp
next
  case (Cons b bs)
  have "parseInt16 [hexDigit (unat b div 16), hexDigit (unat b mod 16)]
      = Some (int (16 * (unat b div 16 mod 16) + unat b mod 16 mod 16))"
    by (rule parseInt16_digits) (rule hexValue_hexDigit)+
  then have "parseInt16 [hexDigit (unat b div 16), hexDigit (unat b mod 16)] = Some (int (unat b))"
    by (simp only: nibbles_of_byte)
  then show ?case using Cons.IH by (simp add: toUint8_def)
qed

lemma length_hexOfBytes: "length (hexOfBytes bs) = 2 * length bs"
  by (induction bs) simp_all

lemma hexOfBytes_no_x: "take 2 (hexOfBytes bs) \<noteq> ''0x''"
proof (cases bs)
  case Nil
  then show ?thesis by simp
next
  case (Cons b bs')
  have "hexDigit (unat b mod 16) \<noteq> CHR ''x''"
  proof
    assume "hexDigit (unat b mod 16) = CHR ''x''"
    then have "hexValue (CHR ''x'') = Some (unat b mod 16 mod 16)"
      using hexValue_hexDigit [of "unat b mod 16"] by simp
    then show False by (simp add: hexValue_def)
  qed
  with Cons show ?thesis by simp
qed

lemma fromHexString_toHexString: "fromHexString (toHexString bs) = Inr bs"
  by (simp add: fromHexString_def toHexString_def bytesOfPairs_hexOfBytes length_hexOfBytes)


subsection \<open>Accumulator indices\<close>



lemma scenarioA_constant: "scenarioA (\<lambda>n. 34768) (\<lambda>n. 2000)"
  by (simp add: scenarioA_def)




subsection \<open>Beacon content keys\<close>

lemma getBeaconContentKey_hex:
  "getBeaconContentKey code t b = toHexString (of_nat (code t) # b)"
  by (simp add: getBeaconContentKey_def toHexString_def)

lemma decodeBeaconContentKey_selector:
  assumes "inj code" and "code t < 256"
  shows "decodeBeaconContentKey code deserialize (of_nat (code t) # b) = deserialize t b"
proof -
  have sel: "unat (of_nat (code t) :: byte) = code t"
    using assms(2) by (simp add: unat_of_nat)
  have eq: "code t = code t' \<longleftrightarrow> t = t'" for t'
    using assms(1) by (auto dest: injD)
  show ?thesis
  proof (cases t)
    case LightClientBootstrap
    with sel show ?thesis by (simp add: decodeBeaconContentKey_def)
  next
    case LightClientUpdatesByRange
    with sel eq show ?thesis by (simp add: decodeBeaconContentKey_def)
  next
    case LightClientFinalityUpdate
    with sel eq show ?thesis by (simp add: decodeBeaconContentKey_def)
  next
    case LightClientOptimisticUpdate
    with sel eq show ?thesis by (simp add: decodeBeaconContentKey_def)
  qed
qed

text \<open>
  C7: when the four content types have distinct numbers below 256, the key that
  \<open>getBeaconContentKey\<close> prints for content type \<open>t\<close> and body \<open>b\<close> is the hex string
  of the selector byte \<open>t\<close> followed by \<open>b\<close>, and \<open>decodeBeaconContentKey\<close> on those
  bytes returns what the key type of \<open>t\<close> deserializes from \<open>b\<close>.
\<close>

theorem C7_content_key_round_trip:
  assumes "inj code" and "code t < 256"
  shows "fromHexString (getBeaconContentKey code t b) = Inr (of_nat (code t) # b)
    \<and> (\<exists>key. fromHexString (getBeaconContentKey code t b) = Inr key
          \<and> decodeBeaconContentKey code deserialize key = deserialize t b)"
  using assms
  by (simp add: getBeaconContentKey_hex fromHexString_toHexString decodeBeaconContentKey_selector)

lemma inj_declaredOrder: "inj declaredOrder"
  by (rule injI) (simp add: declaredOrder_def split: BeaconLightClientNetworkContentType.splits)

theorem C7_content_key_round_trip_witness:
  "inj declaredOrder \<and> declaredOrder LightClientFinalityUpdate < 256
   \<and> getBeaconContentKey declaredOrder LightClientFinalityUpdate [1, 171] = ''0x0201ab''
   \<and> fromHexString ''0x0201ab'' = Inr [2, 1, 171]
   \<and> decodeBeaconContentKey declaredOrder (\<lambda>t b. Inr (t, b)) [2, 1, 171]
       = (Inr (LightClientFinalityUpdate, [1, 171]) :: error + _)"
proof -
  have lt: "declaredOrder LightClientFinalityUpdate < 256"
    by (simp add: declaredOrder_def)
  have key: "getBeaconContentKey declaredOrder LightClientFinalityUpdate [1, 171] = ''0x0201ab''"
    by (simp add: getBeaconContentKey_def toHexString_def hexDigit_def declaredOrder_def)
  have sel: "declaredOrder LightClientFinalityUpdate = 2"
    by (simp add: declaredOrder_def)
  from C7_content_key_round_trip [OF inj_declaredOrder lt, of "[1, 171]" "\<lambda>t b. Inr (t, b)"]
  show ?thesis
    using inj_declaredOrder key by (auto simp: sel)
qed


subsection \<open>The state manager\<close>

lemma getStateRoot_calls: "getStateRoot (calls cs m) = lastRoot (getStateRoot m) cs"
proof (induction cs arbitrary: m)
  case Nil
  then show ?case by simp
next
  case (Cons c cs)
  then show ?case by (cases c) (simp_all add: getStateRoot_def)
qed

lemma stateNetwork_calls: "stateNetwork (calls cs m) = stateNetwork m"
proof (induction cs arbitrary: m)
  case Nil
  then show ?case by simp
next
  case (Cons c cs)
  then show ?case by (cases c) simp_all
qed

text \<open>
  C10: the manager is read-only over the state network. \<open>deleteAccount\<close>,
  \<open>modifyAccountFields\<close>, \<open>putContractCode\<close>, \<open>putContractStorage\<close>,
  \<open>clearContractStorage\<close> and \<open>revert\<close> throw \<^verbatim>\<open>Method not implemented.\<close> and leave the
  manager as it was; \<open>putAccount\<close>, \<open>checkpoint\<close> and \<open>commit\<close> return and leave it as it
  was; after any sequence of calls the network object is the one the manager was built
  with, and \<open>getStateRoot\<close> is the root last passed to \<open>setStateRoot\<close>, the empty byte
  string when there was none.
\<close>

theorem C10_state_manager_read_only:
  "call DeleteAccount m = (Inl (Error ''Method not implemented.''), m)
   \<and> call ModifyAccountFields m = (Inl (Error ''Method not implemented.''), m)
   \<and> call PutContractCode m = (Inl (Error ''Method not implemented.''), m)
   \<and> call PutContractStorage m = (Inl (Error ''Method not implemented.''), m)
   \<and> call ClearContractStorage m = (Inl (Error ''Method not implemented.''), m)
   \<and> call Revert m = (Inl (Error ''Method not implemented.''), m)
   \<and> call PutAccount m = (Inr (), m)
   \<and> call Checkpoint m = (Inr (), m)
   \<and> call Commit m = (Inr (), m)
   \<and> stateNetwork (calls cs (newUltralightStateManager net)) = net
   \<and> getStateRoot (calls cs (newUltralightStateManager net)) = lastRoot [] cs
   \<and> getStateRoot (newUltralightStateManager net) = []
   \<and> getStateRoot (snd (call (SetStateRoot root) m)) = root"
  by (simp add: notImplemented_def getStateRoot_calls stateNetwork_calls)
     (simp add: getStateRoot_def newUltralightStateManager_def)


subsection \<open>The state network's protocol object\<close>

lemma hexToBytes_empty: "hexToBytes ''0x'' = Inr []"
  by (simp add: hexToBytes_def padToEven_def)

text \<open>
  C8: for a content key with no value in the store, \<open>findContentLocally\<close> returns the
  empty byte string and does not throw; it returns the same once the empty content has
  been stored under the key.
\<close>

theorem C8_findContentLocally_absent:
  assumes "map_of (contentDB s) (toHexString contentKey) = None"
  shows "findContentLocally s contentKey = Inr []
    \<and> findContentLocally (stateStore (toHexString contentKey) (toHexString []) s) contentKey
        = findContentLocally s contentKey"
  using assms
  by (simp add: findContentLocally_def retrieve_def stateStore_def put_def hexToBytes_empty
      update_conv' toHexString_def)

theorem C8_findContentLocally_absent_witness:
  "map_of (contentDB \<lparr>routingTable = [], metrics = None, contentDB = [(''0x02'', ''0xff'')],
       utpRequests = []\<rparr>) (toHexString [1]) = None
   \<and> findContentLocally \<lparr>routingTable = [] :: (string \<times> nat) list, metrics = None,
       contentDB = [(''0x02'', ''0xff'')], utpRequests = []\<rparr> [1] = Inr []
   \<and> findContentLocally \<lparr>routingTable = [] :: (string \<times> nat) list, metrics = None,
       contentDB = [(''0x02'', ''0xff''), (''0x01'', ''0x'')], utpRequests = []\<rparr> [1] = Inr []"
proof -
  let ?s = "\<lparr>routingTable = [] :: (string \<times> nat) list, metrics = None,
       contentDB = [(''0x02'', ''0xff'')], utpRequests = []\<rparr>"
  have key: "toHexString [1] = ''0x01''"
    by (simp add: toHexString_def hexDigit_def)
  have absent: "map_of (contentDB ?s) (toHexString [1]) = None"
    by (simp add: key)
  have empty: "toHexString [] = ''0x''"
    by (simp add: toHexString_def)
  have stored: "stateStore (toHexString [1]) (toHexString []) ?s
      = ?s\<lparr>contentDB := [(''0x02'', ''0xff''), (''0x01'', ''0x'')]\<rparr>"
    by (simp add: key empty stateStore_def put_def)
  note w = C8_findContentLocally_absent [OF absent]
  from w have found: "findContentLocally ?s [1] = Inr []"
    by (rule conjunct1)
  from w have "findContentLocally (stateStore (toHexString [1]) (toHexString []) ?s) [1]
      = findContentLocally ?s [1]"
    by (rule conjunct2)
  then have "findContentLocally (?s\<lparr>contentDB := [(''0x02'', ''0xff''), (''0x01'', ''0x'')]\<rparr>) [1]
      = Inr []"
    by (simp only: stored found)
  with absent found show ?thesis by simp
qed

lemma take_two: "take n xs = a # b # r \<Longrightarrow> \<exists>t. xs = a # b # t"
  by (cases xs; cases "tl xs"; cases n; cases "n - 1") auto

text \<open>
  C6: a CONTENT response (first byte 5) whose union is the uTP arm, decoded into a
  two-byte array that starts its own buffer, makes \<open>sendFindContent\<close> open one transfer
  request: for the state network, with the queried key, the peer, request code
  \<open>FINDCONTENT_READ\<close> and, as connection id, the first two bytes of the payload read as
  a big-endian 16-bit number; the decoded union is returned.
\<close>

theorem C6_sendFindContent_utp:
  assumes "findEnr w dstId s = Inr (Some enr)"
    and "sendMessage w enr (serializeFindContent w key) StateNetwork = Inr (5 # body)"
    and "deserializeContent w body = Inr (UTP v)"
    and "decodeHistoryNetworkContentKey w (toHexString key) = Inr contentKey"
    and "byteOffset v = 0"
    and "viewBytes v = b0 # b1 # rest"
  shows "selector (UTP v) = 0
    \<and> sendFindContent w dstId key s =
    (Inr (Some (UTP v)),
     (countReceived (countSent s))\<lparr>utpRequests := utpRequests s @
        [\<lparr>protocolId = StateNetwork, contentKeys = [key], peerId = dstId,
          connectionId = 256 * unat b0 + unat b1, requestCode = FINDCONTENT_READ,
          contents = []\<rparr>]\<rparr>)"
proof -
  from assms(5,6) obtain t where "buffer v = b0 # b1 # t"
    using take_two [of "byteLength v" "buffer v" b0 b1 rest] by (auto simp: viewBytes_def)
  then have connId: "getUint16 (buffer v) = Inr (256 * unat b0 + unat b1)"
    by (simp add: getUint16_def)
  show ?thesis
    using assms(1-4) connId
    by (simp add: sendFindContent_def handleResponse_def MessageCodes_CONTENT_def
        handleNewRequest_def countReceived_def countSent_def)
qed

theorem C6_sendFindContent_utp_witness:
  "findEnr uTPPeer ''0xab12'' onePeer = Inr (Some 7)
   \<and> sendMessage uTPPeer 7 (serializeFindContent uTPPeer [0, 17]) StateNetwork = Inr [5, 0, 1, 2]
   \<and> deserializeContent uTPPeer [0, 1, 2]
       = Inr (UTP \<lparr>buffer = [1, 2], byteOffset = 0, byteLength = 2\<rparr>)
   \<and> viewBytes \<lparr>buffer = [1, 2], byteOffset = 0, byteLength = 2\<rparr> = [1, 2]
   \<and> sendFindContent uTPPeer ''0xab12'' [0, 17] onePeer =
      (Inr (Some (UTP \<lparr>buffer = [1, 2], byteOffset = 0, byteLength = 2\<rparr>)),
       onePeer\<lparr>utpRequests :=
         [\<lparr>protocolId = StateNetwork, contentKeys = [[0, 17]], peerId = ''0xab12'',
           connectionId = 258, requestCode = FINDCONTENT_READ, contents = []\<rparr>]\<rparr>)"
proof -
  let ?v = "\<lparr>buffer = [1, 2], byteOffset = 0, byteLength = 2\<rparr>"
  have enr: "findEnr uTPPeer ''0xab12'' onePeer = Inr (Some 7)"
    by (simp add: findEnr_def onePeer_def)
  have res: "sendMessage uTPPeer 7 (serializeFindContent uTPPeer [0, 17]) StateNetwork
      = Inr (5 # [0, 1, 2])"
    by (simp add: uTPPeer_def)
  have dec: "deserializeContent uTPPeer [0, 1, 2] = Inr (UTP ?v)"
    by (simp add: uTPPeer_def)
  have key: "decodeHistoryNetworkContentKey uTPPeer (toHexString [0, 17])
      = Inr (0, drop 4 (toHexString [0, 17]))"
    by (simp add: uTPPeer_def)
  have off: "byteOffset ?v = 0"
    by simp
  have view: "viewBytes ?v = 1 # 2 # []"
    by (simp add: viewBytes_def)
  have same: "countReceived (countSent onePeer) = onePeer"
    by (simp add: countReceived_def countSent_def onePeer_def)
  from C6_sendFindContent_utp [OF enr res dec key off view]
  show ?thesis
    using enr res dec view by (simp add: same) (simp add: onePeer_def)
qed

subsection \<open>Sorting the accounts of an address\<close>

lemma bitLength_zero: "bitLength 0 = 0"
  by (simp add: bitLength.simps)

lemma bitLength_pos: "0 < n \<Longrightarrow> bitLength n = Suc (bitLength (n div 2))"
  by (subst bitLength.simps) simp

lemma bitLength_le: "0 < m \<Longrightarrow> 2 ^ (bitLength m - 1) \<le> m"
proof (induction m rule: bitLength.induct)
  case (1 n)
  have n: "bitLength n - 1 = bitLength (n div 2)"
    using 1(2) by (simp add: bitLength_pos)
  show ?case
  proof (cases "n div 2 = 0")
    case True
    with 1(2) n show ?thesis by (simp add: bitLength_zero)
  next
    case False
    with 1 have "2 ^ (bitLength (n div 2) - 1) \<le> n div 2" by simp
    moreover from False have "bitLength (n div 2) = Suc (bitLength (n div 2) - 1)"
      by (simp add: bitLength_pos)
    ultimately have "2 ^ bitLength (n div 2) \<le> 2 * (n div 2)"
      by (metis mult_le_mono2 power_Suc)
    with n show ?thesis by simp
  qed
qed

lemma roundToDouble_pos: "0 < m \<Longrightarrow> 0 < roundToDouble m"
proof -
  assume m: "0 < m"
  define e where "e = bitLength m - 53"
  have "(2::nat) ^ e \<le> 2 ^ (bitLength m - 1)"
    by (rule power_increasing) (simp_all add: e_def)
  also note bitLength_le [OF m]
  finally have "2 ^ e \<le> m" .
  then have "0 < m div 2 ^ e" by (simp add: div_greater_zero_iff)
  then show ?thesis
    by (simp add: roundToDouble_def Let_def e_def)
qed

lemma roundToDouble_zero: "roundToDouble 0 = 0"
  by (simp add: roundToDouble_def bitLength_zero)

lemma positive_Number: "positive (Number x) \<longleftrightarrow> 0 < x"
proof (cases "x = 0")
  case True
  then show ?thesis by (simp add: Number_def roundToDouble_zero)
next
  case False
  then have "0 < roundToDouble (nat \<bar>x\<bar>)" by (intro roundToDouble_pos) simp
  then show ?thesis using False by (auto simp: Number_def Let_def)
qed

lemma update_absent: "map_of al k = None \<Longrightarrow> AList.update k v al = al @ [(k, v)]"
  by (induction al) (auto split: if_splits)

lemma compareRoots_found:
  assumes "map_of accs r1 = Some a1" and "map_of accs r2 = Some a2"
  shows "\<exists>v. compareRoots accs r1 r2 = Inr v
    \<and> (positive v \<longleftrightarrow> (nonce a2, balance a2) < (nonce a1, balance a1))"
  using assms by (auto simp: compareRoots_def positive_Number less_prod_def)

lemma insertBy_insort_key:
  assumes "map_of accs r = Some a" and "\<forall>z \<in> set zs. map_of accs (fst z) = Some (snd z)"
  shows "insertBy (compareRoots accs) r (map fst zs) = Inr (map fst (insort_key keyOf (r, a) zs))"
  using assms(2)
proof (induction zs)
  case Nil
  then show ?case by simp
next
  case (Cons z zs)
  from Cons.prems have z: "map_of accs (fst z) = Some (snd z)" by simp
  from compareRoots_found [OF assms(1) z] obtain v
    where v: "compareRoots accs r (fst z) = Inr v"
      and pos: "positive v \<longleftrightarrow> keyOf z < (nonce a, balance a)"
    by auto
  show ?case
  proof (cases "positive v")
    case True
    with pos have "\<not> (nonce a, balance a) \<le> keyOf z"
      using not_le by blast
    then have "insort_key keyOf (r, a) (z # zs) = z # insort_key keyOf (r, a) zs"
      by (simp only: insort_key.simps snd_conv if_False)
    with True v Cons show ?thesis by simp
  next
    case False
    with pos have "(nonce a, balance a) \<le> keyOf z"
      using not_less by blast
    then have "insort_key keyOf (r, a) (z # zs) = (r, a) # z # zs"
      by (simp only: insort_key.simps snd_conv if_True)
    with False v show ?thesis by simp
  qed
qed

lemma own_keys_found:
  "distinct (map fst accs) \<Longrightarrow> e \<in> set accs \<Longrightarrow> map_of accs (fst e) = Some (snd e)"
  by (cases e) simp

lemma sortBy_sort_key:
  assumes "distinct (map fst accs)" and "set es \<subseteq> set accs"
  shows "sortBy (compareRoots accs) (map fst es) = Inr (map fst (sort_key keyOf es))"
  using assms(2)
proof (induction es)
  case Nil
  then show ?case by simp
next
  case (Cons e es)
  then have e: "map_of accs (fst e) = Some (snd e)"
    using own_keys_found [OF assms(1), of e] by simp
  have "\<forall>z \<in> set (sort_key keyOf es). map_of accs (fst z) = Some (snd z)"
    using Cons.prems own_keys_found [OF assms(1)] by auto
  from insertBy_insort_key [OF e this] Cons show ?case by simp
qed

lemma own_entries:
  assumes "distinct (map fst accs)" and "set es \<subseteq> set accs"
  shows "List.map_filter (\<lambda>root. map_option (Pair root) (map_of accs root)) (map fst es) = es"
  using assms(2)
proof (induction es)
  case Nil
  then show ?case by (simp add: map_filter_simps)
next
  case (Cons e es)
  then have "map_of accs (fst e) = Some (snd e)"
    using own_keys_found [OF assms(1), of e] by simp
  with Cons show ?case by (simp add: map_filter_simps)
qed

lemma foldl_update_distinct:
  "distinct (map fst (obj @ es))
    \<Longrightarrow> foldl (\<lambda>obj (k, v). AList.update k v obj) obj es = obj @ es"
proof (induction es arbitrary: obj)
  case Nil
  then show ?case by simp
next
  case (Cons e es)
  obtain k v where e: "e = (k, v)" by (cases e)
  with Cons.prems have "map_of obj k = None"
    by (auto simp: map_of_eq_None_iff)
  then have "AList.update k v obj = obj @ [(k, v)]" by (rule update_absent)
  moreover from Cons.prems e have "distinct (map fst ((obj @ [(k, v)]) @ es))" by simp
  ultimately show ?case using Cons.IH [of "obj @ [(k, v)]"] e by simp
qed

lemma fromEntries_distinct: "distinct (map fst es) \<Longrightarrow> fromEntries es = es"
  using foldl_update_distinct [of "[]" es] by (simp add: fromEntries_def)

lemma ownPropertyOrder_plain:
  assumes "\<forall>e \<in> set es. \<not> isArrayIndex (fst e)"
  shows "ownPropertyOrder es = es"
proof -
  from assms have "filter (\<lambda>e. isArrayIndex (fst e)) es = []"
    by (simp add: filter_empty_conv)
  moreover from assms have "filter (\<lambda>e. \<not> isArrayIndex (fst e)) es = es"
    by (simp add: filter_id_conv)
  ultimately show ?thesis by (simp add: ownPropertyOrder_def)
qed

text \<open>What \<^verbatim>\<open>toHexString\<close> prints is no array index.\<close>

lemma hex_is_no_array_index: "take 2 k = ''0x'' \<Longrightarrow> \<not> isArrayIndex k"
  by (cases k; cases "tl k") (auto simp: isArrayIndex_def isDecimalDigit_def)

lemma sortAccountRecord_sort_key:
  assumes "distinct (map fst (accounts r))"
    and "list_all (\<lambda>k. \<not> isArrayIndex k) (map fst (accounts r))"
  shows "sortAccountRecord r = Inr \<lparr>address = address r, accounts = sort_key keyOf (accounts r)\<rparr>"
proof -
  let ?sorted = "sort_key keyOf (accounts r)"
  from assms(2) have plain: "\<forall>e \<in> set (accounts r). \<not> isArrayIndex (fst e)"
    by (simp add: list_all_iff)
  then have keys: "objectKeys (accounts r) = map fst (accounts r)"
    by (simp add: objectKeys_def ownPropertyOrder_plain)
  have roots: "sortBy (compareRoots (accounts r)) (map fst (accounts r)) = Inr (map fst ?sorted)"
    using sortBy_sort_key [OF assms(1), of "accounts r"] by simp
  have entries: "List.map_filter (\<lambda>root. map_option (Pair root) (map_of (accounts r) root))
      (map fst ?sorted) = ?sorted"
    using own_entries [OF assms(1), of ?sorted] by simp
  have "mset (map fst ?sorted) = mset (map fst (accounts r))" by simp
  then have "distinct (map fst ?sorted)"
    using assms(1) by (metis mset_eq_imp_distinct_iff)
  then have "fromEntries ?sorted = ?sorted" by (rule fromEntries_distinct)
  moreover from plain have "ownPropertyOrder ?sorted = ?sorted"
    by (intro ownPropertyOrder_plain) simp
  ultimately show ?thesis using roots entries keys by (simp add: sortAccountRecord_def)
qed

lemma sorted_wrt_precedes:
  assumes "sorted_wrt P xs" and "x \<in> set xs" and "y \<in> set xs" and "\<not> P y x" and "P x x"
  shows "precedes xs x y"
proof -
  from assms(2) obtain us vs where xs: "xs = us @ x # vs" and first: "x \<notin> set us"
    by (auto dest: split_list_first)
  from first have "u \<noteq> x" if "u \<in> set us" for u
    using that by auto
  then have "dropWhile (\<lambda>z. z \<noteq> x) (us @ x # vs) = dropWhile (\<lambda>z. z \<noteq> x) (x # vs)"
    by (rule dropWhile_append2)
  then have "dropWhile (\<lambda>z. z \<noteq> x) xs = x # vs"
    by (simp add: xs)
  then have pre: "precedes xs x y \<longleftrightarrow> y \<in> set vs" by (simp add: precedes_def)
  from assms(1) xs have "\<forall>u \<in> set us. P u x" by (auto simp: sorted_wrt_append)
  with assms(4) have "y \<notin> set us" by auto
  moreover from assms(4,5) have "y \<noteq> x" by auto
  ultimately show ?thesis using assms(3) pre xs by auto
qed

lemma keyOf_less: "keyOf e1 < keyOf e2 \<longleftrightarrow> lessAccount (snd e1) (snd e2)"
  by (auto simp: less_prod_def lessAccount_def)

text \<open>
  C4 (amended): for an account record (an object, so with distinct keys) none of whose
  keys is an array index (a state root printed by \<open>toHexString\<close> never is),
  \<open>sortAccountRecord\<close> returns the same address and the same entries, in ascending
  order of (nonce, balance) compared as integers: no entry is followed by one with a
  smaller nonce or with the same nonce and a smaller balance, an entry whose account
  has the smaller nonce, or the same nonce and the smaller balance, precedes the other,
  and entries with the same nonce and balance keep the order they had.
\<close>

theorem C4_sortAccountRecord:
  assumes "distinct (map fst (accounts r))"
    and "list_all (\<lambda>k. \<not> isArrayIndex k) (map fst (accounts r))"
  shows "\<exists>r'. sortAccountRecord r = Inr r'
    \<and> address r' = address r
    \<and> mset (accounts r') = mset (accounts r)
    \<and> sorted_wrt (\<lambda>e1 e2. \<not> lessAccount (snd e2) (snd e1)) (accounts r')
    \<and> (\<forall>e1 \<in> set (accounts r'). \<forall>e2 \<in> set (accounts r').
          lessAccount (snd e1) (snd e2) \<longrightarrow> precedes (accounts r') e1 e2)
    \<and> (\<forall>n b. filter (\<lambda>e. nonce (snd e) = n \<and> balance (snd e) = b) (accounts r')
          = filter (\<lambda>e. nonce (snd e) = n \<and> balance (snd e) = b) (accounts r))"
proof -
  let ?out = "sort_key keyOf (accounts r)"
  have "sorted (map keyOf ?out)" by (rule sorted_sort_key)
  then have le: "sorted_wrt (\<lambda>e1 e2. keyOf e1 \<le> keyOf e2) ?out"
    by (simp add: sorted_map)
  have ord: "keyOf e1 \<le> keyOf e2 \<longleftrightarrow> \<not> lessAccount (snd e2) (snd e1)" for e1 e2
    by (simp only: keyOf_less [symmetric] not_less)
  from le have sorted: "sorted_wrt (\<lambda>e1 e2. \<not> lessAccount (snd e2) (snd e1)) ?out"
    by (simp only: ord)
  have before: "precedes ?out e1 e2"
    if "e1 \<in> set ?out" and "e2 \<in> set ?out" and "lessAccount (snd e1) (snd e2)" for e1 e2
  proof (rule sorted_wrt_precedes [where P = "\<lambda>e1 e2. keyOf e1 \<le> keyOf e2"])
    show "sorted_wrt (\<lambda>e1 e2. keyOf e1 \<le> keyOf e2) ?out" by (rule le)
    show "e1 \<in> set ?out" by (rule that(1))
    show "e2 \<in> set ?out" by (rule that(2))
    show "\<not> keyOf e2 \<le> keyOf e1" using that(3) by (simp only: ord not_not)
    show "keyOf e1 \<le> keyOf e1" by (rule order_refl)
  qed
  have stable: "filter (\<lambda>e. nonce (snd e) = n \<and> balance (snd e) = b) ?out
      = filter (\<lambda>e. nonce (snd e) = n \<and> balance (snd e) = b) (accounts r)" for n b
    using sort_key_stable [of keyOf "(n, b)" "accounts r"] by simp
  let ?r' = "\<lparr>address = address r, accounts = ?out\<rparr>"
  show ?thesis
  proof (intro exI conjI)
    show "sortAccountRecord r = Inr ?r'"
      by (rule sortAccountRecord_sort_key [OF assms])
    show "address ?r' = address r" by simp
    show "mset (accounts ?r') = mset (accounts r)" by simp
    show "sorted_wrt (\<lambda>e1 e2. \<not> lessAccount (snd e2) (snd e1)) (accounts ?r')"
      using sorted by simp
    show "\<forall>e1 \<in> set (accounts ?r'). \<forall>e2 \<in> set (accounts ?r').
        lessAccount (snd e1) (snd e2) \<longrightarrow> precedes (accounts ?r') e1 e2"
      using before by simp
    show "\<forall>n b. filter (\<lambda>e. nonce (snd e) = n \<and> balance (snd e) = b) (accounts ?r')
        = filter (\<lambda>e. nonce (snd e) = n \<and> balance (snd e) = b) (accounts r)"
      using stable by simp
  qed
qed

text \<open>
  The conversion does lose precision: \<open>2 ^ 53 + 1\<close> becomes \<open>2 ^ 53\<close>. It keeps the
  sign (\<open>positive_Number\<close>), which is all the sort uses.
\<close>

lemma precision_is_lost: "Number 9007199254740993 = Finite 9007199254740992"
proof -
  have "bitLength 9007199254740993 = 54"
    by (simp add: bitLength_pos bitLength_zero)
  then show ?thesis
    by (simp add: Number_def roundToDouble_def Let_def)
qed

lemma Number_small: "Number 0 = Finite 0" "Number 1 = Finite 1" "Number (- 1) = Finite (- 1)"
  by (simp_all add: Number_def roundToDouble_def Let_def bitLength_pos bitLength_zero)

lemma index_keys: "isArrayIndex ''1''" "isArrayIndex ''2''" "\<not> isArrayIndex ''0x01''"
  "\<not> isArrayIndex ''0x02''" "\<not> isArrayIndex ''0x03''"
  "decimalValue ''1'' = 1" "decimalValue ''2'' = 2"
  by (simp_all add: isArrayIndex_def isDecimalDigit_def decimalValue_def hexValue_def)

text \<open>
  C4, as stated, fails on an address whose account is the same under two state roots
  (same nonce, same balance): the first root precedes the second in the result, yet its
  account has neither the smaller nonce nor, at equal nonces, the smaller balance. It
  also fails on an object whose keys are array indices: under the keys \<open>2\<close> (nonce 1)
  and \<open>1\<close> (nonce 2) the result lists the key \<open>1\<close> first, the larger nonce before the
  smaller.
\<close>

theorem C4_counterexample:
  "(let unchanged = \<lparr>nonce = 1, balance = 5, storageRoot = [], codeHash = []\<rparr>;
        r = \<lparr>address = ''0xaa'', accounts = [(''0x01'', unchanged), (''0x02'', unchanged)]\<rparr>
    in sortAccountRecord r = Inr r
       \<and> precedes (accounts r) (''0x01'', unchanged) (''0x02'', unchanged)
       \<and> \<not> lessAccount unchanged unchanged)
   \<and> (let first = \<lparr>nonce = 1, balance = 0, storageRoot = [], codeHash = []\<rparr>;
           second = \<lparr>nonce = 2, balance = 0, storageRoot = [], codeHash = []\<rparr>
       in sortAccountRecord \<lparr>address = ''0xaa'', accounts = [(''2'', first), (''1'', second)]\<rparr>
            = Inr \<lparr>address = ''0xaa'', accounts = [(''1'', second), (''2'', first)]\<rparr>
          \<and> precedes [(''1'', second), (''2'', first)] (''1'', second) (''2'', first)
          \<and> lessAccount first second)"
  by (simp add: Let_def sortAccountRecord_def compareRoots_def Number_small fromEntries_def
      map_filter_simps precedes_def lessAccount_def objectKeys_def ownPropertyOrder_def
      index_keys)

theorem C4_sortAccountRecord_witness:
  "let small = \<lparr>nonce = 1, balance = 0, storageRoot = [], codeHash = []\<rparr>;
       big = \<lparr>nonce = 1, balance = 9007199254740993, storageRoot = [], codeHash = []\<rparr>;
       late = \<lparr>nonce = 2, balance = 0, storageRoot = [], codeHash = []\<rparr>;
       r = \<lparr>address = ''0xaa'', accounts = [(''0x03'', late), (''0x01'', big), (''0x02'', small)]\<rparr>;
       out = [(''0x02'', small), (''0x01'', big), (''0x03'', late)]
   in distinct (map fst (accounts r))
      \<and> list_all (\<lambda>k. \<not> isArrayIndex k) (map fst (accounts r))
      \<and> sortAccountRecord r = Inr \<lparr>address = ''0xaa'', accounts = out\<rparr>
      \<and> precedes out (''0x02'', small) (''0x01'', big)
      \<and> mset out = mset (accounts r)"
proof -
  let ?small = "\<lparr>nonce = 1, balance = 0, storageRoot = [], codeHash = []\<rparr>"
  let ?big = "\<lparr>nonce = 1, balance = 9007199254740993, storageRoot = [], codeHash = []\<rparr>"
  let ?late = "\<lparr>nonce = 2, balance = 0, storageRoot = [], codeHash = []\<rparr>"
  let ?r = "\<lparr>address = ''0xaa'', accounts = [(''0x03'', ?late), (''0x01'', ?big), (''0x02'', ?small)]\<rparr>"
  let ?out = "[(''0x02'', ?small), (''0x01'', ?big), (''0x03'', ?late)]"
  have d: "distinct (map fst (accounts ?r))" by simp
  have plain: "list_all (\<lambda>k. \<not> isArrayIndex k) (map fst (accounts ?r))"
    by (simp add: index_keys)
  have run: "sortAccountRecord ?r = Inr \<lparr>address = ''0xaa'', accounts = ?out\<rparr>"
    by (simp add: sortAccountRecord_def compareRoots_def Number_small precision_is_lost
        fromEntries_def map_filter_simps objectKeys_def ownPropertyOrder_def index_keys)
  from C4_sortAccountRecord [OF d plain] obtain r'
    where r': "sortAccountRecord ?r = Inr r'"
      and same: "mset (accounts r') = mset (accounts ?r)"
      and before: "\<forall>e1 \<in> set (accounts r'). \<forall>e2 \<in> set (accounts r').
          lessAccount (snd e1) (snd e2) \<longrightarrow> precedes (accounts r') e1 e2"
    by blast
  from r' run have out: "accounts r' = ?out" by auto
  have "lessAccount ?small ?big" by (simp add: lessAccount_def)
  with before out have "precedes ?out (''0x02'', ?small) (''0x01'', ?big)" by simp
  with d plain run same out show ?thesis by (simp add: Let_def)
qed


subsection \<open>The tries by state root\<close>

lemma pollUntilOpen_opening:
  "status m = Opening \<Longrightarrow> pollUntilOpen m = Some (m\<lparr>status := Open, openDelay := 0\<rparr>)"
proof (induction "openDelay m" arbitrary: m)
  case 0
  then have "elapse m = m\<lparr>status := Open\<rparr>" by (simp add: elapse_def)
  moreover have "pollUntilOpen m = pollUntilOpen (elapse m)"
    using 0 by (subst pollUntilOpen.simps) simp
  moreover have "pollUntilOpen (m\<lparr>status := Open\<rparr>) = Some (m\<lparr>status := Open\<rparr>)"
    by (subst pollUntilOpen.simps) simp
  ultimately show ?case using 0 by simp
next
  case (Suc n)
  let ?m = "m\<lparr>openDelay := n\<rparr>"
  have "elapse m = ?m" using Suc by (simp add: elapse_def)
  moreover have "pollUntilOpen m = pollUntilOpen (elapse m)"
    using Suc by (subst pollUntilOpen.simps) simp
  moreover have "pollUntilOpen ?m = Some (?m\<lparr>status := Open, openDelay := 0\<rparr>)"
    using Suc by (intro Suc.hyps(1)) simp_all
  ultimately show ?case by simp
qed

lemma addRoot_result:
  "addRoot delay root s =
     Some (TrieLevel (length (levels s)),
       s\<lparr>accountTries := AList.update (toHexString root) (TrieLevel (length (levels s))) (accountTries s),
         levels := levels s @ [\<lparr>status = Open, entries = [], openDelay = 0\<rparr>]\<rparr>)"
  by (simp add: addRoot_def putSublevel_def dbOpen_def newMemoryLevel_def pollUntilOpen_opening Let_def)

text \<open>
  C9: \<open>getSublevel\<close> returns a database for every state root, whatever the state and
  however long the new database takes to open. Afterwards the root is a key of
  \<open>accountTries\<close>, bound to the database returned. A known root returns its database
  and changes nothing; an unknown root gets a new, empty, open database, registered at
  the end of \<open>accountTries\<close>, so the \<open>StateDB\<close> is no longer what it was.
\<close>

theorem C9_getSublevel:
  "\<exists>sub s'. getSublevel delay root s = Some (sub, s')
     \<and> toHexString root \<in> fst ` set (accountTries s')
     \<and> map_of (accountTries s') (toHexString root) = Some sub
     \<and> knownAddresses s' = knownAddresses s \<and> stateRootIndex s' = stateRootIndex s
     \<and> (case map_of (accountTries s) (toHexString root) of
           Some known \<Rightarrow> sub = known \<and> s' = s
         | None \<Rightarrow>
             db sub = length (levels s)
             \<and> levels s' = levels s @ [\<lparr>status = Open, entries = [], openDelay = 0\<rparr>]
             \<and> accountTries s' = accountTries s @ [(toHexString root, sub)]
             \<and> s' \<noteq> s)"
proof (cases "map_of (accountTries s) (toHexString root)")
  case None
  let ?sub = "TrieLevel (length (levels s))"
  let ?s' = "s\<lparr>accountTries := accountTries s @ [(toHexString root, ?sub)],
         levels := levels s @ [\<lparr>status = Open, entries = [], openDelay = 0\<rparr>]\<rparr>"
  have "levels ?s' \<noteq> levels s" by simp
  then have changed: "?s' \<noteq> s" by metis
  have found: "map_of (accountTries s @ [(toHexString root, ?sub)]) (toHexString root) = Some ?sub"
    using None by (simp add: map_add_def)
  from None changed found show ?thesis
    by (simp add: getSublevel_def addRoot_result update_absent)
next
  case (Some known)
  then show ?thesis
    by (auto simp: getSublevel_def dest: map_of_SomeD intro: rev_image_eqI)
qed











subsection \<open>Adding content to the history store\<close>

lemma written_dbPut [simp]: "written (dbPut k v h) = written h @ [(k, v)]"
  by (simp add: dbPut_def)

lemma historyDB_dbPut [simp]: "historyDB (dbPut k v h) = AList.update k v (historyDB h)"
  by (simp add: dbPut_def)

lemma written_announce [simp]: "written (announce t hashKey val h) = written h"
  by (simp add: announce_def emit_def Let_def)

lemma historyDB_announce [simp]: "historyDB (announce t hashKey val h) = historyDB h"
  by (simp add: announce_def emit_def Let_def)

lemma addBlockHeader_cases:
  "addBlockHeader c k hashKey val h =
     (if \<exists>header. fromRLPSerializedHeader c val = Inr header
           \<and> toHexString (headerHash c header) = hashKey
      then Break (dbPut k (toHexString val) h) else Return h)"
  by (auto simp: addBlockHeader_def split: sum.splits)

lemma hex_examples:
  "toHexString [255] = ''0xff''" "toHexString [171] = ''0xab''" "toHexString [1] = ''0x01''"
  "fromHexString ''0x01'' = Inr [1]" "fromHexString ''0x02'' = Inr [2]"
  "fromHexString ''0xab'' = Inr [171]" "fromHexString ''0xAB'' = Inr [171]"
  "fromHexString ''ab'' = Inr [171]"
  by (simp_all add: toHexString_def hexDigit_def fromHexString_def hexValue_def parseInt16_def
      toUint8_def isWhiteSpace_def Let_def)

lemma key_examples:
  "getHistoryNetworkContentKey offline Receipt [1] = ''0x0201''"
  "getHistoryNetworkContentKey echo BlockHeader [171] = ''0x00ab''"
  "getHistoryNetworkContentKey echo BlockBody [171] = ''0x01ab''"
  "getHistoryNetworkContentKey echo BlockBody [1] = ''0x0101''"
  "getHistoryNetworkContentKey echo BlockHeader [1] = ''0x0001''"
  "getHistoryNetworkContentKey echo EpochAccumulator [1] = ''0x0301''"
  "getHistoryNetworkContentKey echo EpochAccumulator [2] = ''0x0302''"
  by (simp_all add: toHexString_def hexDigit_def getHistoryNetworkContentKey_def offline_def
      echo_def)

text \<open>
  C2 (amended): for a block header, \<open>addContentToHistory\<close> writes to the store exactly
  when the value RLP-decodes to a header whose hash, printed by \<open>toHexString\<close> (\<open>0x\<close> and
  the digits in lower case), is the string \<open>hashKey\<close>. Then \<open>hashKey\<close> reads as the hash of
  the header, and the value is written under the content key of the header. Otherwise
  (the decoding throws, or the string is another) the manager is what it was: the store
  is unchanged, no event is emitted and nothing is queued for gossip.
\<close>

theorem C2_block_header:
  "let m' = snd (addContentToHistory c BlockHeader hashKey val m);
       valid = (\<exists>header. fromRLPSerializedHeader c val = Inr header
                  \<and> toHexString (headerHash c header) = hashKey)
   in (written (history m') \<noteq> written (history m)) = valid
      \<and> (if valid
          then \<exists>header. fromRLPSerializedHeader c val = Inr header
                 \<and> fromHexString hashKey = Inr (headerHash c header)
                 \<and> written (history m') = written (history m)
                      @ [(getHistoryNetworkContentKey c BlockHeader (headerHash c header),
                          toHexString val)]
                 \<and> map_of (historyDB (history m'))
                      (getHistoryNetworkContentKey c BlockHeader (headerHash c header))
                      = Some (toHexString val)
                 \<and> emitted (history m') = emitted (history m)
                      @ [ContentAdded hashKey BlockHeader (toHexString val)]
          else m' = m \<and> historyDB (history m') = historyDB (history m)
                 \<and> emitted (history m') = emitted (history m)
                 \<and> gossiped (history m') = gossiped (history m))"
proof (cases "\<exists>header. fromRLPSerializedHeader c val = Inr header
    \<and> toHexString (headerHash c header) = hashKey")
  case True
  then obtain header where header: "fromRLPSerializedHeader c val = Inr header"
    and key: "hashKey = toHexString (headerHash c header)" by auto
  from key have "fromHexString hashKey = Inr (headerHash c header)"
    by (simp add: fromHexString_toHexString)
  with True header show ?thesis
    by (simp add: addContentToHistory_def addBlockHeader_cases Let_def update_conv'
        announce_def emit_def dbPut_def)
next
  case False
  then have arm: "addBlockHeader c k hashKey val h = Return h" for k h
    by (simp only: addBlockHeader_cases if_False)
  have "snd (addContentToHistory c BlockHeader hashKey val m) = m"
    by (simp add: addContentToHistory_def arm Let_def split: sum.splits)
  with False show ?thesis
    by (simp only: Let_def if_False simp_thms)
qed

text \<open>
  C2, as stated, fails for a key that spells the hash in upper case, or without the
  prefix. The value decodes to a header whose hash is the byte \<open>ab\<close>, which is the block
  hash that \<^verbatim>\<open>fromHexString\<close> reads from the keys \<open>0xAB\<close> and \<open>ab\<close>; yet under these keys
  nothing is written, and the value is written under the key \<open>0xab\<close>.
\<close>

theorem C2_counterexample:
  "fromRLPSerializedHeader echo [171] = Inr [171] \<and> headerHash echo [171] = [171]
   \<and> fromHexString ''0xAB'' = Inr [171] \<and> fromHexString ''ab'' = Inr [171]
   \<and> addContentToHistory echo BlockHeader ''0xAB'' [171] (newContentManager 0 0)
       = (Inr (), newContentManager 0 0)
   \<and> addContentToHistory echo BlockHeader ''ab'' [171] (newContentManager 0 0)
       = (Inr (), newContentManager 0 0)
   \<and> written (history (snd (addContentToHistory echo BlockHeader ''0xab'' [171]
        (newContentManager 0 0)))) = [(''0x00ab'', ''0xab'')]"
proof -
  have decoded: "fromRLPSerializedHeader echo [171] = Inr [171]" "headerHash echo [171] = [171]"
    by (simp_all add: echo_def)
  have refused: "addContentToHistory echo BlockHeader k [171] (newContentManager 0 0)
      = (Inr (), newContentManager 0 0)"
    if "fromHexString k = Inr [171]" and "k \<noteq> ''0xab''" for k
    using that by (simp add: addContentToHistory_def addBlockHeader_def Let_def decoded hex_examples)
  have "written (history (snd (addContentToHistory echo BlockHeader ''0xab'' [171]
        (newContentManager 0 0)))) = [(''0x00ab'', ''0xab'')]"
    by (simp add: addContentToHistory_def addBlockHeader_def Let_def decoded hex_examples
        key_examples) (simp add: newContentManager_def)
  with decoded refused [of "''0xAB''"] refused [of "''ab''"] show ?thesis
    by (simp add: hex_examples)
qed

lemma addBlockBody_stored:
  assumes "val \<noteq> []" and "findBlock c hashKey hash val h = Inr (Some block)"
  shows "\<exists>h'. addBlockBody c k hashKey hash val h = Break h'
    \<and> written h' = written h @ [(k, toHexString val)]
    \<and> historyDB h' = AList.update k (toHexString val) (historyDB h)"
  using assms by (simp add: addBlockBody_def Let_def dbPut_def split: sum.splits)

lemma addBlockBody_written:
  "(case addBlockBody c k hashKey hash val h of
      Return h' \<Rightarrow> h' = h
    | Throw e h' \<Rightarrow> h' = h
    | Break h' \<Rightarrow> written h' = written h @ [(k, toHexString val)]
        \<and> historyDB h' = AList.update k (toHexString val) (historyDB h))"
  by (simp add: addBlockBody_def Let_def dbPut_def split: sum.splits option.splits)

lemma addHeaderProof_emitted:
  "\<exists>verified. addHeaderProof c hashKey val h = Break (emit (Verified hashKey verified) h)"
  by (auto simp: addHeaderProof_def split: sum.splits)

lemma emitted_announce_proof [simp]:
  "emitted (announce HeaderProof hashKey val h) = emitted h"
  by (simp add: announce_def Let_def)

text \<open>The arms for receipts and epoch accumulators call \<^verbatim>\<open>db.put\<close> and nothing else.\<close>

lemma unverified_written:
  assumes "fromHexString hashKey = Inr hash" and "t = Receipt \<or> t = EpochAccumulator"
  shows "written (history (snd (addContentToHistory c t hashKey val m)))
    = written (history m) @ [(getHistoryNetworkContentKey c t hash, toHexString val)]"
  using assms by (auto simp: addContentToHistory_def Let_def)

text \<open>What each arm does to the store, by content type.\<close>

lemma store_after:
  assumes "fromHexString hashKey = Inr hash"
  shows "let h = history m;
       h' = history (snd (addContentToHistory c t hashKey val m));
       stored = (written h' = written h
           @ [(getHistoryNetworkContentKey c t hash, toHexString val)]
         \<and> historyDB h' = AList.update (getHistoryNetworkContentKey c t hash)
             (toHexString val) (historyDB h));
       untouched = (written h' = written h \<and> historyDB h' = historyDB h)
   in (stored \<or> untouched)
    \<and> (case t of
          BlockHeader \<Rightarrow>
            stored = (\<exists>header. fromRLPSerializedHeader c val = Inr header
              \<and> toHexString (headerHash c header) = hashKey)
        | BlockBody \<Rightarrow>
            (if val = [] then untouched
             else case assembleBlock c hash val h of
                 Some block \<Rightarrow> stored
               | None \<Rightarrow>
                   (case getBlockByHash c hashKey of
                      Inl e \<Rightarrow> untouched
                    | Inr None \<Rightarrow> untouched
                    | Inr (Some block) \<Rightarrow> True))
        | Receipt \<Rightarrow> True
        | EpochAccumulator \<Rightarrow> True
        | HeaderProof \<Rightarrow>
            untouched \<and> (\<exists>verified. emitted h' = emitted h @ [Verified hashKey verified]))"
proof (cases t)
  case BlockHeader
  with assms(1) show ?thesis
    unfolding Let_def
    by (simp add: addContentToHistory_def addBlockHeader_cases Let_def)
next
  case BlockBody
  show ?thesis
  proof (cases "val = []")
    case True
    with BlockBody assms(1) show ?thesis
      unfolding Let_def
      by (simp add: addContentToHistory_def addBlockBody_def Let_def)
  next
    case False
    show ?thesis
    proof (cases "findBlock c hashKey hash val (history m)")
      case (Inl e)
      with False BlockBody assms(1) show ?thesis
        unfolding Let_def
        by (simp add: addContentToHistory_def addBlockBody_def findBlock_def Let_def
            split: option.splits)
    next
      case (Inr found)
      show ?thesis
      proof (cases found)
        case None
        with Inr False BlockBody assms(1) show ?thesis
          unfolding Let_def
          by (simp add: addContentToHistory_def addBlockBody_def findBlock_def Let_def
              split: option.splits)
      next
        case (Some block)
        with Inr addBlockBody_stored [OF False, where c = c and hashKey = hashKey and hash = hash
            and h = "history m" and block = block
            and k = "getHistoryNetworkContentKey c BlockBody hash"]
        obtain h1 where "addBlockBody c (getHistoryNetworkContentKey c BlockBody hash) hashKey hash
            val (history m) = Break h1"
          and "written h1 = written (history m)
            @ [(getHistoryNetworkContentKey c BlockBody hash, toHexString val)]"
          and "historyDB h1 = AList.update (getHistoryNetworkContentKey c BlockBody hash)
            (toHexString val) (historyDB (history m))"
          by auto
        with Inr Some False BlockBody assms(1) show ?thesis
          unfolding Let_def
          by (simp add: addContentToHistory_def findBlock_def Let_def
              split: option.splits sum.splits)
      qed
    qed
  qed
next
  case Receipt
  with assms(1) show ?thesis
    unfolding Let_def
    by (simp add: addContentToHistory_def Let_def)
next
  case EpochAccumulator
  with assms(1) show ?thesis
    unfolding Let_def
    by (simp add: addContentToHistory_def Let_def)
next
  case HeaderProof
  from addHeaderProof_emitted [of c hashKey val "history m"] obtain verified
    where "addHeaderProof c hashKey val (history m) = Break (emit (Verified hashKey verified) (history m))"
    by auto
  with HeaderProof assms(1) show ?thesis
    unfolding Let_def
    by (simp add: addContentToHistory_def Let_def emit_def)
qed

lemma outcome_nodeId:
  "addBlockHeader c k hashKey val (h\<lparr>nodeId := n\<rparr>)
     = (case addBlockHeader c k hashKey val h of Return h' \<Rightarrow> Return (h'\<lparr>nodeId := n\<rparr>)
        | Break h' \<Rightarrow> Break (h'\<lparr>nodeId := n\<rparr>) | Throw e h' \<Rightarrow> Throw e (h'\<lparr>nodeId := n\<rparr>))"
  "addBlockBody c k hashKey hash val (h\<lparr>nodeId := n\<rparr>)
     = (case addBlockBody c k hashKey hash val h of Return h' \<Rightarrow> Return (h'\<lparr>nodeId := n\<rparr>)
        | Break h' \<Rightarrow> Break (h'\<lparr>nodeId := n\<rparr>) | Throw e h' \<Rightarrow> Throw e (h'\<lparr>nodeId := n\<rparr>))"
  "addHeaderProof c hashKey val (h\<lparr>nodeId := n\<rparr>)
     = (case addHeaderProof c hashKey val h of Return h' \<Rightarrow> Return (h'\<lparr>nodeId := n\<rparr>)
        | Break h' \<Rightarrow> Break (h'\<lparr>nodeId := n\<rparr>) | Throw e h' \<Rightarrow> Throw e (h'\<lparr>nodeId := n\<rparr>))"
  by (simp_all add: addBlockHeader_def addBlockBody_def addHeaderProof_def findBlock_def
      assembleBlock_def dbPut_def emit_def Let_def split: sum.splits option.splits)

lemma dbPut_nodeId: "dbPut k v (h\<lparr>nodeId := n\<rparr>) = (dbPut k v h)\<lparr>nodeId := n\<rparr>"
  by (simp add: dbPut_def)

lemma announce_nodeId:
  "announce t hashKey val (h\<lparr>nodeId := n\<rparr>) = (announce t hashKey val h)\<lparr>nodeId := n\<rparr>"
  by (simp add: announce_def emit_def Let_def)

lemma radius_unused:
  "addContentToHistory c t hashKey val (relocate node r m)
    = (fst (addContentToHistory c t hashKey val m),
       relocate node r (snd (addContentToHistory c t hashKey val m)))"
  by (cases t)
    (simp_all add: addContentToHistory_def relocate_def outcome_nodeId announce_nodeId dbPut_nodeId
      Let_def split: sum.splits outcome.splits)

lemma xor_eq_zero: "(x :: 256 word) XOR y = 0 \<longleftrightarrow> x = y"
proof
  assume "x XOR y = 0"
  then have "(x XOR y) XOR y = 0 XOR y" by (rule arg_cong)
  then show "x = y" by (simp add: xor.assoc)
next
  assume "x = y"
  then show "x XOR y = 0" by simp
qed

lemma within_zero_radius:
  "withinRadius (newContentManager node 0) contentId
    \<longleftrightarrow> (word_of_nat node :: 256 word) = word_of_nat contentId"
  by (simp add: withinRadius_def newContentManager_def unat_eq_0 xor_eq_zero)

text \<open>
  C1, as stated, fails. With radius 0, the same receipts are written by a node with id
  0 and by a node with id 1, though whatever the content id of the key is, it is not at
  distance 0 from both; and they are written with no header in the store, so that the
  receipts verifier of the specification does not hold, whatever the trie root of the
  receipts is. One epoch accumulator is written under two epoch roots, and whatever
  \<open>keccak256\<close> is, the value does not hash to both. A block body is written with no
  header in the store, after the network returned a block: nothing was reassembled with
  a stored header, whatever the hash of a block is.
\<close>

theorem C1_counterexample:
  "\<forall>contentId receiptTrieRoot receiptsRoot keccak256 blockHash.
     written (history (snd (addContentToHistory offline Receipt ''0x01'' [255]
         (newContentManager 0 0)))) = [(''0x0201'', ''0xff'')]
     \<and> written (history (snd (addContentToHistory offline Receipt ''0x01'' [255]
         (newContentManager 1 0)))) = [(''0x0201'', ''0xff'')]
     \<and> \<not> (withinRadius (newContentManager 0 0) contentId
           \<and> withinRadius (newContentManager 1 0) contentId)
     \<and> \<not> receiptsVerifier offline receiptTrieRoot receiptsRoot
           (history (newContentManager 0 0)) [1] [255]
     \<and> written (history (snd (addContentToHistory echo EpochAccumulator ''0x01'' [255]
         (newContentManager 0 0)))) = [(''0x0301'', ''0xff'')]
     \<and> written (history (snd (addContentToHistory echo EpochAccumulator ''0x02'' [255]
         (newContentManager 0 0)))) = [(''0x0302'', ''0xff'')]
     \<and> \<not> (specEpochVerifier keccak256 [1] [255] \<and> specEpochVerifier keccak256 [2] [255])
     \<and> written (history (snd (addContentToHistory echo BlockBody ''0x01'' [255]
         (newContentManager 0 0)))) = [(''0x0101'', ''0xff'')]
     \<and> assembleBlock echo [1] [255] (history (newContentManager 0 0)) = None
     \<and> \<not> specBodyVerifier echo blockHash (history (newContentManager 0 0)) [1] [255]"
proof -
  have run: "written (history (snd (addContentToHistory offline Receipt ''0x01'' [255]
         (newContentManager node 0)))) = [(''0x0201'', ''0xff'')]" for node
    by (simp add: addContentToHistory_def hex_examples key_examples Let_def)
      (simp add: newContentManager_def)
  have far: "\<not> (withinRadius (newContentManager 0 0) contentId
           \<and> withinRadius (newContentManager 1 0) contentId)" for contentId
    by (auto simp: within_zero_radius)
  have unverified: "\<not> receiptsVerifier offline receiptTrieRoot receiptsRoot
           (history (newContentManager 0 0)) [1] [255]" for receiptTrieRoot receiptsRoot
    by (simp add: receiptsVerifier_def newContentManager_def)
  have epoch: "written (history (snd (addContentToHistory echo EpochAccumulator ''0x01'' [255]
         (newContentManager 0 0)))) = [(''0x0301'', ''0xff'')]"
    "written (history (snd (addContentToHistory echo EpochAccumulator ''0x02'' [255]
         (newContentManager 0 0)))) = [(''0x0302'', ''0xff'')]"
    by (simp_all add: addContentToHistory_def hex_examples key_examples Let_def)
      (simp_all add: newContentManager_def)
  have roots: "\<not> (specEpochVerifier keccak256 [1] [255] \<and> specEpochVerifier keccak256 [2] [255])"
    for keccak256
    by (simp add: specEpochVerifier_def)
  have none: "assembleBlock echo [1] [255] (history (newContentManager 0 0)) = None"
    by (simp add: assembleBlock_def newContentManager_def)
  have body: "written (history (snd (addContentToHistory echo BlockBody ''0x01'' [255]
         (newContentManager 0 0)))) = [(''0x0101'', ''0xff'')]"
    by (simp add: addContentToHistory_def addBlockBody_def findBlock_def none hex_examples
        key_examples Let_def)
      (simp add: newContentManager_def echo_def hex_examples)
  have unassembled: "\<not> specBodyVerifier echo blockHash (history (newContentManager 0 0)) [1] [255]"
    for blockHash
    by (simp add: specBodyVerifier_def newContentManager_def)
  from run far unverified epoch roots none body unassembled show ?thesis by blast
qed

text \<open>
  C1 (amended): a key with an odd number of digits throws before anything is written.
  Otherwise \<open>addContentToHistory\<close> writes to the store at most the value, under the
  content key of its type and hash. A block header is written exactly when the value
  RLP-decodes to a header whose hash, printed by \<open>toHexString\<close>, is the key. A block
  body is not written when it is empty; it is written when \<^verbatim>\<open>reassembleBlock\<close> accepts
  it with the header stored under the key; it is not written when no block was put
  together and the network throws or has none (when the network returns a block,
  nothing is stated). A header proof is never written: one \<^verbatim>\<open>Verified\<close> event is
  emitted. Of receipts and epoch accumulators nothing is stated. The function makes no
  check of distance: the same call on a manager with another radius and another node id
  does the same.
\<close>

theorem C1_what_is_written:
  "(case fromHexString hashKey of
      Inl e \<Rightarrow> addContentToHistory c t hashKey val m = (Inl e, m)
    | Inr hash \<Rightarrow>
        (let h = history m;
             h' = history (snd (addContentToHistory c t hashKey val m));
             stored = (written h' = written h
                 @ [(getHistoryNetworkContentKey c t hash, toHexString val)]
               \<and> historyDB h' = AList.update (getHistoryNetworkContentKey c t hash)
                   (toHexString val) (historyDB h));
             untouched = (written h' = written h \<and> historyDB h' = historyDB h)
         in (stored \<or> untouched)
            \<and> (case t of
                  BlockHeader \<Rightarrow>
                    stored = (\<exists>header. fromRLPSerializedHeader c val = Inr header
                      \<and> toHexString (headerHash c header) = hashKey)
                | BlockBody \<Rightarrow>
                    (if val = [] then untouched
                     else case assembleBlock c hash val h of
                         Some block \<Rightarrow> stored
                       | None \<Rightarrow>
                           (case getBlockByHash c hashKey of
                              Inl e \<Rightarrow> untouched
                            | Inr None \<Rightarrow> untouched
                            | Inr (Some block) \<Rightarrow> True))
                | Receipt \<Rightarrow> True
                | EpochAccumulator \<Rightarrow> True
                | HeaderProof \<Rightarrow>
                    untouched
                    \<and> (\<exists>verified. emitted h' = emitted h @ [Verified hashKey verified]))))
   \<and> (\<forall>node r. addContentToHistory c t hashKey val (relocate node r m)
        = (fst (addContentToHistory c t hashKey val m),
           relocate node r (snd (addContentToHistory c t hashKey val m))))
   \<and> (\<exists>e. fromHexString hashKey = Inl e)
       = odd (length (if take 2 hashKey = ''0x'' then drop 2 hashKey else hashKey))"
proof -
  have thrown: "(\<exists>e. fromHexString hashKey = Inl e)
       = odd (length (if take 2 hashKey = ''0x'' then drop 2 hashKey else hashKey))"
    by (auto simp: fromHexString_def Let_def)
  show ?thesis
  proof (cases "fromHexString hashKey")
    case (Inl e)
    have "addContentToHistory c t hashKey val m = (Inl e, m)"
      using Inl by (simp add: addContentToHistory_def)
    with Inl thrown show ?thesis
      by (simp only: sum.case radius_unused simp_thms)
  next
    case (Inr hash)
    from store_after [OF Inr, where c = c and t = t and val = val and m = m]
    have "let h = history m;
             h' = history (snd (addContentToHistory c t hashKey val m));
             stored = (written h' = written h
                 @ [(getHistoryNetworkContentKey c t hash, toHexString val)]
               \<and> historyDB h' = AList.update (getHistoryNetworkContentKey c t hash)
                   (toHexString val) (historyDB h));
             untouched = (written h' = written h \<and> historyDB h' = historyDB h)
         in (stored \<or> untouched)
            \<and> (case t of
                  BlockHeader \<Rightarrow>
                    stored = (\<exists>header. fromRLPSerializedHeader c val = Inr header
                      \<and> toHexString (headerHash c header) = hashKey)
                | BlockBody \<Rightarrow>
                    (if val = [] then untouched
                     else case assembleBlock c hash val h of
                         Some block \<Rightarrow> stored
                       | None \<Rightarrow>
                           (case getBlockByHash c hashKey of
                              Inl e \<Rightarrow> untouched
                            | Inr None \<Rightarrow> untouched
                            | Inr (Some block) \<Rightarrow> True))
                | Receipt \<Rightarrow> True
                | EpochAccumulator \<Rightarrow> True
                | HeaderProof \<Rightarrow>
                    untouched
                    \<and> (\<exists>verified. emitted h' = emitted h @ [Verified hashKey verified]))" .
    with Inr thrown show ?thesis
      by (simp only: sum.case radius_unused simp_thms)
  qed
qed

text \<open>
  A node with a peerless routing table and the \<open>echo\<close> library: the header \<open>ab\<close> is
  written under its hash; then a body is written after it was reassembled with that
  header; a header proof leaves the store as it is and emits one event; and a node
  elsewhere, with another radius, writes the same header.
\<close>

theorem C1_what_is_written_witness:
  "(let m1 = snd (addContentToHistory echo BlockHeader ''0xab'' [171] (newContentManager 7 0));
        m2 = snd (addContentToHistory echo BlockBody ''0xab'' [1] m1);
        m3 = snd (addContentToHistory echo HeaderProof ''0xab'' [1] m2)
    in written (history m1) = [(''0x00ab'', ''0xab'')]
       \<and> assembleBlock echo [171] [1] (history m1) = Some ([171], [1])
       \<and> written (history m2) = [(''0x00ab'', ''0xab''), (''0x01ab'', ''0x01'')]
       \<and> historyDB (history m2) = [(''0x00ab'', ''0xab''), (''0x01ab'', ''0x01'')]
       \<and> written (history m3) = written (history m2)
       \<and> historyDB (history m3) = historyDB (history m2)
       \<and> emitted (history m3) = emitted (history m2) @ [Verified ''0xab'' True])
   \<and> written (history (snd (addContentToHistory echo BlockHeader ''0xab'' [171]
        (newContentManager 9 5)))) = [(''0x00ab'', ''0xab'')]
   \<and> addContentToHistory echo BlockBody ''0xabc'' [1] (newContentManager 7 0)
        = (Inl (Error ''hex string length 3 must be multiple of 2''), newContentManager 7 0)"
proof -
  define m1 where "m1 = snd (addContentToHistory echo BlockHeader ''0xab'' [171] (newContentManager 7 0))"
  define m2 where "m2 = snd (addContentToHistory echo BlockBody ''0xab'' [1] m1)"
  define m3 where "m3 = snd (addContentToHistory echo HeaderProof ''0xab'' [1] m2)"
  have decoded: "fromRLPSerializedHeader echo [171] = Inr [171]" "headerHash echo [171] = [171]"
    by (simp_all add: echo_def)
  have new: "written (history (newContentManager n r)) = []"
    "historyDB (history (newContentManager n r)) = []" for n r
    by (simp_all add: newContentManager_def)
  from C1_what_is_written [where c = echo and t = BlockHeader and hashKey = "''0xab''"
      and val = "[171]" and m = "newContentManager 7 0"]
  have header: "written (history m1) = [(''0x00ab'', ''0xab'')]"
    "historyDB (history m1) = [(''0x00ab'', ''0xab'')]"
    by (simp_all add: hex_examples key_examples decoded Let_def new m1_def [symmetric])
  from C1_what_is_written [where c = echo and t = BlockHeader and hashKey = "''0xab''"
      and val = "[171]" and m = "newContentManager 7 0"]
  have "addContentToHistory echo BlockHeader ''0xab'' [171] (relocate 9 5 (newContentManager 7 0))
      = (fst (addContentToHistory echo BlockHeader ''0xab'' [171] (newContentManager 7 0)),
         relocate 9 5 m1)"
    unfolding m1_def by blast
  moreover have "relocate 9 5 (newContentManager 7 0) = newContentManager 9 5"
    by (simp add: relocate_def newContentManager_def)
  ultimately have elsewhere: "written (history (snd (addContentToHistory echo BlockHeader
      ''0xab'' [171] (newContentManager 9 5)))) = [(''0x00ab'', ''0xab'')]"
    using header by (simp add: relocate_def)
  have assembled: "assembleBlock echo [171] [1] (history m1) = Some ([171], [1])"
    by (simp add: assembleBlock_def header key_examples hex_examples) (simp add: echo_def)
  from C1_what_is_written [where c = echo and t = BlockBody and hashKey = "''0xab''"
      and val = "[1]" and m = m1]
  have body: "written (history m2) = [(''0x00ab'', ''0xab''), (''0x01ab'', ''0x01'')]"
    "historyDB (history m2) = [(''0x00ab'', ''0xab''), (''0x01ab'', ''0x01'')]"
    by (simp_all add: hex_examples key_examples assembled header Let_def m2_def [symmetric])
  from C1_what_is_written [where c = echo and t = HeaderProof and hashKey = "''0xab''"
      and val = "[1]" and m = m2]
  obtain verified where proof_event: "written (history m3) = written (history m2)"
    "historyDB (history m3) = historyDB (history m2)"
    "emitted (history m3) = emitted (history m2) @ [Verified ''0xab'' verified]"
    by (auto simp: hex_examples Let_def m3_def [symmetric])
  have "emitted (history m3) = emitted (history m2) @ [Verified ''0xab'' True]"
    by (simp add: m3_def addContentToHistory_def addHeaderProof_def hex_examples Let_def
        emit_def) (simp add: echo_def emit_def)
  with proof_event have event: "emitted (history m3) = emitted (history m2) @ [Verified ''0xab'' True]"
    by simp
  have odd_key: "fromHexString ''0xabc'' = Inl (Error ''hex string length 3 must be multiple of 2'')"
    by (simp add: fromHexString_def decimal.simps hexDigit_def)
  from C1_what_is_written [where c = echo and t = BlockBody and hashKey = "''0xabc''"
      and val = "[1]" and m = "newContentManager 7 0"]
  have thrown: "addContentToHistory echo BlockBody ''0xabc'' [1] (newContentManager 7 0)
        = (Inl (Error ''hex string length 3 must be multiple of 2''), newContentManager 7 0)"
    by (simp add: odd_key)
  from header assembled body proof_event(1,2) event elsewhere thrown show ?thesis
    by (simp add: Let_def m1_def [symmetric] m2_def [symmetric] m3_def [symmetric])
qed

end
